theory Spec2Isabelle
  imports Complex_Main "HOL-Library.Multiset" "HOL-Library.AList"
begin

section \<open>Python values, errors and rectangles\<close>

text \<open>
  The exceptions the two modules can raise.  A call that raises is a value \<open>Inl e\<close>.
\<close>

datatype error = TypeError | AttributeError | ZeroDivisionError | IndexError

text \<open>
  Raw records are plain Python dictionaries with string keys.  Values are dynamically
  typed, so the attributes a run copies out of a raw record keep the type \<open>pyval\<close>.
  Coordinates, spaces and thresholds are Python floats, that is, IEEE doubles.  A finite
  double is the real number it denotes; comparisons and \<^verbatim>\<open>abs\<close> are exact on doubles,
  while subtraction, addition and division round, and are therefore not the operations of
  the reals: they are parameters of the model (see the external contracts).

  A Python \<^verbatim>\<open>str\<close> whose whitespace matters is the list of its code points.
\<close>

datatype pyval =
    PNone
  | PInt int
  | PFloat real
  | PStr string
  | PList "pyval list"
  | PDict "(string \<times> pyval) list"

type_synonym pydict = "(string \<times> pyval) list"

text \<open>\<^verbatim>\<open>raw.get(key, default)\<close>\<close>

definition dict_get :: "pydict \<Rightarrow> string \<Rightarrow> pyval \<Rightarrow> pyval" where
  "dict_get d k dflt = (case map_of d k of None \<Rightarrow> dflt | Some v \<Rightarrow> v)"

text \<open>\<^verbatim>\<open>res.update({...})\<close>: every pair of the argument is stored, in order.\<close>

definition dict_update :: "pydict \<Rightarrow> pydict \<Rightarrow> pydict" where
  "dict_update d kvs = fold (\<lambda>(k, v) acc. AList.update k v acc) kvs d"

text \<open>A rectangle of the extraction library: \<^verbatim>\<open>(x0, y0, x1, y1)\<close>.\<close>

record rect =
  x0 :: real
  y0 :: real
  x1 :: real
  y1 :: real

text \<open>\<^verbatim>\<open>fitz.Rect()\<close>, the rectangle with all coordinates zero.\<close>

definition Rect0 :: rect where
  "Rect0 = \<lparr>x0 = 0, y0 = 0, x1 = 0, y1 = 0\<rparr>"

text \<open>
  \<^verbatim>\<open>bbox[idx]\<close>.  Every call site computes the index as 0, 3 or \<open>(idx0 + 2) % 4\<close>,
  so it is always one of 0..3.
\<close>

definition rect_index :: "rect \<Rightarrow> nat \<Rightarrow> real" where
  "rect_index r i = (if i = 0 then x0 r else if i = 1 then y0 r else if i = 2 then x1 r else y1 r)"

text \<open>
  Python slicing \<^verbatim>\<open>xs[a:b]\<close> and \<^verbatim>\<open>xs[a:]\<close> (the end \<open>None\<close>): a negative bound
  counts from the end, and both bounds are clipped to the list.
\<close>

definition slice_bound :: "nat \<Rightarrow> int \<Rightarrow> nat" where
  "slice_bound n i = (if i < 0 then nat (max (int n + i) 0) else min (nat i) n)"

definition py_slice :: "'a list \<Rightarrow> int \<Rightarrow> int option \<Rightarrow> 'a list" where
  "py_slice xs a b =
     (let n = length xs;
          lo = slice_bound n a;
          hi = (case b of None \<Rightarrow> n | Some j \<Rightarrow> slice_bound n j)
      in take (hi - lo) (drop lo xs))"

section \<open>The data model\<close>

text \<open>
  A character (class \<^verbatim>\<open>Char\<close>, external): a bounding box and a glyph \<^verbatim>\<open>c\<close>.
\<close>

record Char_obj =
  char_bbox :: rect
  char_c :: string

text \<open>A style record \<^verbatim>\<open>{'type': int, 'color': int}\<close>.\<close>

record style_rec =
  style_type :: int
  style_color :: int

text \<open>
  \<^verbatim>\<open>TextSpan\<close>: the attributes set by \<^verbatim>\<open>__init__\<close>.  \<open>span_text\<close> is the cache
  \<^verbatim>\<open>_text\<close> of the derived text (\<open>None\<close> until the property is first read).
\<close>

record TextSpan =
  span_bbox :: rect
  span_color :: pyval
  span_font :: pyval
  span_size :: pyval
  span_flags :: pyval
  span_chars :: "Char_obj list"
  span_text :: "string option"
  span_style :: "style_rec list"

text \<open>A style shape (class \<^verbatim>\<open>Rectangle\<close>, external): only its bbox is read here.\<close>

record Rectangle =
  rect_bbox :: rect

text \<open>An inline image (class \<^verbatim>\<open>ImageSpan\<close>, external).\<close>

record ImageSpan =
  image_bbox :: rect
  image_ref :: nat

text \<open>A member of a line's run sequence; the case is what \<^verbatim>\<open>isinstance\<close> tests.\<close>

datatype span = Image ImageSpan | Text TextSpan

text \<open>
  A line (class \<^verbatim>\<open>Line\<close>, external).  \<open>line_id\<close> is the identity of the Python
  object: \<^verbatim>\<open>==\<close> on lines is object identity.  A collection holds each line object
  once.
\<close>

record Line =
  line_id :: nat
  line_bbox :: rect
  line_spans :: "span list"
  pid :: "nat option"
  line_break :: int

datatype TextAlignment = RIGHT | OtherAlignment nat

text \<open>The owning block (external): the attributes the collection reads.\<close>

record Block =
  block_id :: nat
  block_bbox :: rect
  is_horizontal_text :: bool
  alignment :: TextAlignment
  left_space :: real
  left_space_total :: real
  right_space :: real
  right_space_total :: real

text \<open>\<^verbatim>\<open>Lines\<close>: the ordered lines \<^verbatim>\<open>_instances\<close> and the back reference \<^verbatim>\<open>_parent\<close>.\<close>

record Lines =
  instances :: "Line list"
  parent :: "Block option"

section \<open>The external contracts\<close>

text \<open>
  The classes and helpers the two modules call but do not define (the rectangle algebra
  of the extraction library, \<^verbatim>\<open>BBox\<close>, \<^verbatim>\<open>Char\<close>, \<^verbatim>\<open>Rectangle\<close>, \<^verbatim>\<open>Line\<close>,
  \<^verbatim>\<open>Collection\<close>, \<^verbatim>\<open>utils\<close>, \<^verbatim>\<open>constants\<close>) are taken as parameters: one record
  of functions, passed to every operation.  So are the three rounding operations of
  double arithmetic: \<open>float_sub\<close>, \<open>float_add\<close> and \<open>float_div\<close> give the double that
  \<^verbatim>\<open>a - b\<close>, \<^verbatim>\<open>a + b\<close> and \<^verbatim>\<open>a / b\<close> (for \<open>b \<noteq> 0\<close>) evaluate to.  \<open>line_text\<close>
  gives the code points of a line's text.
\<close>

record ext =
  float_sub :: "real \<Rightarrow> real \<Rightarrow> real"
  float_add :: "real \<Rightarrow> real \<Rightarrow> real"
  float_div :: "real \<Rightarrow> real \<Rightarrow> real"
  rect_and :: "rect \<Rightarrow> rect \<Rightarrow> rect"
  rect_or :: "rect \<Rightarrow> rect \<Rightarrow> rect"
  rect_bool :: "rect \<Rightarrow> bool"
  rect_contains :: "rect \<Rightarrow> rect \<Rightarrow> bool"
  rect_intersects :: "rect \<Rightarrow> rect \<Rightarrow> bool"
  bbox_init :: "pydict \<Rightarrow> rect"
  bbox_store :: "rect \<Rightarrow> pydict"
  bbox_update :: "rect \<Rightarrow> rect"
  char_init :: "pyval \<Rightarrow> Char_obj"
  char_store :: "Char_obj \<Rightarrow> pyval"
  contained_in_rect :: "Char_obj \<Rightarrow> Rectangle \<Rightarrow> bool"
  to_text_style :: "Rectangle \<Rightarrow> TextSpan \<Rightarrow> style_rec option"
  get_main_bbox :: "rect \<Rightarrow> rect \<Rightarrow> real \<Rightarrow> bool"
  MAJOR_DIST :: real
  get_expand_bbox :: "Line \<Rightarrow> real \<Rightarrow> rect"
  line_is_horizontal_text :: "Line \<Rightarrow> bool"
  line_get_main_bbox :: "Line \<Rightarrow> Line \<Rightarrow> real \<Rightarrow> bool"
  in_same_row :: "Line \<Rightarrow> Line \<Rightarrow> bool"
  line_text :: "Line \<Rightarrow> nat list"
  line_strip :: "Line \<Rightarrow> Line \<times> bool"
  line_add_bbox :: "Line \<Rightarrow> span list \<Rightarrow> rect"
  sort_in_reading_order :: "Lines \<Rightarrow> Line list"
  lines_is_horizontal_text :: "Lines \<Rightarrow> bool"
  lines_bbox :: "Lines \<Rightarrow> rect"
  update_bbox :: "Block \<Rightarrow> rect \<Rightarrow> Block"

section \<open>TextSpan\<close>

subsection \<open>Construction and store\<close>

text \<open>
  The values a \<^verbatim>\<open>for\<close> iterates over: the elements of a list, the one-character
  strings of a string, the keys of a dictionary; \<open>None\<close> and numbers are not iterable
  (\<open>TypeError\<close>).
\<close>

definition py_iter :: "pyval \<Rightarrow> error + pyval list" where
  "py_iter v =
     (case v of
        PList xs \<Rightarrow> Inr xs
      | PStr s \<Rightarrow> Inr (map (\<lambda>ch. PStr [ch]) s)
      | PDict d \<Rightarrow> Inr (map (\<lambda>kv. PStr (fst kv)) d)
      | PNone \<Rightarrow> Inl TypeError
      | PInt i \<Rightarrow> Inl TypeError
      | PFloat x \<Rightarrow> Inl TypeError)"

text \<open>
  The body of \<^verbatim>\<open>__init__(self, raw)\<close>.  The base class reads the bbox; the other
  attributes are read with \<^verbatim>\<open>raw.get\<close> and its defaults; the comprehension builds a
  character from each item of the \<^verbatim>\<open>chars\<close> entry.
\<close>

definition TextSpan_init :: "ext \<Rightarrow> pydict \<Rightarrow> error + TextSpan" where
  "TextSpan_init E raw =
     (case py_iter (dict_get raw ''chars'' (PList [])) of
        Inr cs \<Rightarrow>
          Inr \<lparr>span_bbox = bbox_init E raw,
               span_color = dict_get raw ''color'' (PInt 0),
               span_font = dict_get raw ''font'' PNone,
               span_size = dict_get raw ''size'' (PFloat 12),
               span_flags = dict_get raw ''flags'' (PInt 0),
               span_chars = map (char_init E) cs,
               span_text = None,
               span_style = []\<rparr>
      | Inl e \<Rightarrow> Inl e)"

text \<open>
  A call \<^verbatim>\<open>TextSpan(args...)\<close>.  The signature is \<^verbatim>\<open>__init__(self, raw: dict)\<close>: the
  parameter \<^verbatim>\<open>raw\<close> has no default, so exactly one argument binds and any other number
  of arguments is a \<open>TypeError\<close>.
\<close>

definition TextSpan_new :: "ext \<Rightarrow> pydict list \<Rightarrow> error + TextSpan" where
  "TextSpan_new E args = (case args of [raw] \<Rightarrow> TextSpan_init E raw | _ \<Rightarrow> Inl TypeError)"

definition TextSpan_store :: "ext \<Rightarrow> TextSpan \<Rightarrow> pydict" where
  "TextSpan_store E self =
     dict_update (bbox_store E (span_bbox self))
       [(''color'', span_color self),
        (''font'', span_font self),
        (''size'', span_size self),
        (''flags'', span_flags self),
        (''chars'', PList (map (char_store E) (span_chars self)))]"

subsection \<open>The text property\<close>

text \<open>
  Reading \<^verbatim>\<open>self.text\<close>: the cached value, or the joined glyphs, which are then cached.
  The receiver after the read is returned with the text.
\<close>

definition TextSpan_text :: "TextSpan \<Rightarrow> TextSpan \<times> string" where
  "TextSpan_text self =
     (case span_text self of
        None \<Rightarrow> (let t = concat (map char_c (span_chars self)) in (self\<lparr>span_text := Some t\<rparr>, t))
      | Some t \<Rightarrow> (self, t))"

text \<open>
  An assignment \<^verbatim>\<open>span.text = value\<close>.  \<^verbatim>\<open>text\<close> is declared with \<^verbatim>\<open>@property\<close> and
  the class declares no setter for it, so the assignment raises \<open>AttributeError\<close>.
\<close>

definition set_text :: "TextSpan \<Rightarrow> string \<Rightarrow> error + TextSpan" where
  "set_text split_span v = Inl AttributeError"

subsection \<open>split\<close>

text \<open>
  The four statements that build one part: a deep copy of the receiver, its bbox, its
  characters, its text.  The right-hand side \<^verbatim>\<open>self.text[a:b]\<close> is evaluated (filling the
  receiver's cache) before the assignment to the copy's \<^verbatim>\<open>text\<close>.
\<close>

definition split_part ::
    "TextSpan \<Rightarrow> rect \<Rightarrow> int \<Rightarrow> int option \<Rightarrow> TextSpan \<times> (error + TextSpan)" where
  "split_part self bb a b =
     (let split_span = self;
          split_span = split_span\<lparr>span_bbox := bb\<rparr>;
          split_span = split_span\<lparr>span_chars := py_slice (span_chars self) a b\<rparr>;
          (self', t) = TextSpan_text self
      in (self', set_text split_span (py_slice t a b)))"

definition split_left :: "TextSpan \<Rightarrow> rect \<Rightarrow> int \<Rightarrow> TextSpan \<times> (error + TextSpan list)" where
  "split_left self intsec pos =
     (if pos > 0 then
        (let (self', r) =
               split_part self
                 \<lparr>x0 = x0 (span_bbox self), y0 = y0 (span_bbox self),
                  x1 = x0 intsec, y1 = y1 (span_bbox self)\<rparr> 0 (Some pos)
         in (self', case r of Inl e \<Rightarrow> Inl e | Inr sp \<Rightarrow> Inr [sp]))
      else (self, Inr []))"

definition split_middle ::
    "ext \<Rightarrow> TextSpan \<Rightarrow> Rectangle \<Rightarrow> rect \<Rightarrow> int \<Rightarrow> int \<Rightarrow> int
       \<Rightarrow> TextSpan \<times> (error + TextSpan list)" where
  "split_middle E self rect intsec pos len pos_end =
     (if len > 0 then
        (let (self', r) =
               split_part self
                 \<lparr>x0 = x0 intsec, y0 = y0 intsec, x1 = x1 intsec, y1 = y1 intsec\<rparr>
                 pos (Some pos_end)
         in (self',
             case r of
               Inl e \<Rightarrow> Inl e
             | Inr sp \<Rightarrow>
                 (case to_text_style E rect sp of
                    None \<Rightarrow> Inr [sp]
                  | Some new_style \<Rightarrow> Inr [sp\<lparr>span_style := span_style sp @ [new_style]\<rparr>])))
      else (self, Inr []))"

definition split_right :: "TextSpan \<Rightarrow> rect \<Rightarrow> int \<Rightarrow> TextSpan \<times> (error + TextSpan list)" where
  "split_right self intsec pos_end =
     (if pos_end < int (length (span_chars self)) then
        (let (self', r) =
               split_part self
                 \<lparr>x0 = x1 intsec, y0 = y0 (span_bbox self),
                  x1 = x1 (span_bbox self), y1 = y1 (span_bbox self)\<rparr> pos_end None
         in (self', case r of Inl e \<Rightarrow> Inl e | Inr sp \<Rightarrow> Inr [sp]))
      else (self, Inr []))"

text \<open>
  The three \<^verbatim>\<open>if\<close> blocks of \<^verbatim>\<open>split\<close> in sequence: left, middle, right.  An
  exception in one block ends the call; \<open>split_spans\<close> collects the parts appended.
\<close>

definition split_parts ::
    "ext \<Rightarrow> TextSpan \<Rightarrow> Rectangle \<Rightarrow> rect \<Rightarrow> int \<Rightarrow> int \<Rightarrow> int
       \<Rightarrow> TextSpan \<times> (error + TextSpan list)" where
  "split_parts E self rect intsec pos len pos_end =
     (let (self1, left) = split_left self intsec pos in
      case left of
        Inl e \<Rightarrow> (self1, Inl e)
      | Inr ls \<Rightarrow>
          (let (self2, mid) = split_middle E self1 rect intsec pos len pos_end in
           case mid of
             Inl e \<Rightarrow> (self2, Inl e)
           | Inr ms \<Rightarrow>
               (let (self3, right) = split_right self2 intsec pos_end in
                case right of
                  Inl e \<Rightarrow> (self3, Inl e)
                | Inr rs \<Rightarrow> (self3, Inr (ls @ ms @ rs)))))"

text \<open>
  \<^verbatim>\<open>TextSpan.split(self, rect)\<close>.  The result is the receiver after the call and either
  the exception raised or the list of parts.
\<close>

definition TextSpan_split ::
    "ext \<Rightarrow> TextSpan \<Rightarrow> Rectangle \<Rightarrow> TextSpan \<times> (error + TextSpan list)" where
  "TextSpan_split E self rect =
     (let intsec = rect_and E (rect_bbox rect) (span_bbox self) in
      if \<not> rect_bool E intsec then (self, Inr [self])
      else
        (let intsec = intsec\<lparr>y0 := y0 (span_bbox self)\<rparr>;
             intsec = intsec\<lparr>y1 := y1 (span_bbox self)\<rparr>;
             index_chars =
               filter (\<lambda>items. contained_in_rect E (snd items) rect)
                 (enumerate 0 (span_chars self));
             pos = (if index_chars \<noteq> [] then int (fst (hd index_chars)) else - 1);
             len = int (length index_chars);
             pos_end = max (pos + len) 0
         in split_parts E self rect intsec pos len pos_end))"

subsection \<open>intersect\<close>

text \<open>
  The double that the literal \<^verbatim>\<open>0.2\<close> denotes: \<open>3602879701896397 / 2 ^ 54\<close>.
\<close>

definition double_0_2 :: real where
  "double_0_2 = 3602879701896397 / 2 ^ 54"

text \<open>The loop of \<^verbatim>\<open>intersect\<close> over the characters: the kept characters and the bbox.\<close>

definition intersect_chars :: "ext \<Rightarrow> TextSpan \<Rightarrow> rect \<Rightarrow> Char_obj list \<times> rect" where
  "intersect_chars E self r =
     fold (\<lambda>ch (span_chars', span_bbox').
             if get_main_bbox E (char_bbox ch) r double_0_2
             then (span_chars' @ [ch], rect_or E span_bbox' (span_bbox self))
             else (span_chars', span_bbox'))
       (span_chars self) ([], Rect0)"

text \<open>
  \<^verbatim>\<open>TextSpan.intersect(self, rect)\<close>.  \<^verbatim>\<open>self.copy()\<close> is a copy of the value;
  \<^verbatim>\<open>TextSpan()\<close> is a call of the constructor with no argument.
\<close>

definition TextSpan_intersect :: "ext \<Rightarrow> TextSpan \<Rightarrow> rect \<Rightarrow> error + TextSpan" where
  "TextSpan_intersect E self r =
     (if rect_contains E r (span_bbox self) then Inr self
      else if \<not> rect_intersects E r (span_bbox self) then TextSpan_new E []
      else
        (let (span_chars', span_bbox') = intersect_chars E self r in
         if span_chars' = [] then TextSpan_new E []
         else Inr (self\<lparr>span_chars := span_chars', span_bbox := bbox_update E span_bbox'\<rparr>)))"

subsection \<open>The receiver before and after a call\<close>

text \<open>
  \<open>unchanged_but_cache s s'\<close>: the run \<open>s'\<close> is the run \<open>s\<close>, or the run \<open>s\<close> after
  its \<^verbatim>\<open>text\<close> property has been read, that is, with its derived text cached.
\<close>

definition unchanged_but_cache :: "TextSpan \<Rightarrow> TextSpan \<Rightarrow> bool" where
  "unchanged_but_cache s s' = (s' = s \<or> s' = fst (TextSpan_text s))"

section \<open>Lines\<close>

subsection \<open>append, reset and the line's add\<close>

text \<open>
  \<^verbatim>\<open>Lines.append\<close>: the base class's append, then the stamp of the parent's identity
  when a parent is assigned.

  Modelled from the spec: \<^verbatim>\<open>Collection.append\<close> is not in the source; it adds the line
  to the end of the ordered sequence.
\<close>

definition Lines_append :: "Lines \<Rightarrow> Line \<Rightarrow> Lines" where
  "Lines_append self line =
     (case parent self of
        None \<Rightarrow> self\<lparr>instances := instances self @ [line]\<rparr>
      | Some p \<Rightarrow> self\<lparr>instances := instances self @ [line\<lparr>pid := Some (block_id p)\<rparr>]\<rparr>)"

text \<open>
  Modelled from the spec: \<^verbatim>\<open>Collection.reset\<close> is not in the source; it replaces the
  collection's contents and propagates the aggregate bbox to the owning block.
\<close>

definition Collection_reset :: "ext \<Rightarrow> Lines \<Rightarrow> Line list \<Rightarrow> Lines" where
  "Collection_reset E self ls =
     (let self = self\<lparr>instances := ls\<rparr> in
      case parent self of
        None \<Rightarrow> self
      | Some p \<Rightarrow> self\<lparr>parent := Some (update_bbox E p (lines_bbox E self))\<rparr>)"

text \<open>
  Modelled from the spec: \<^verbatim>\<open>Line.add\<close> is not in the source; it appends the given
  runs onto the line in place.  The bbox the line has afterwards is external.
\<close>

definition Line_add :: "ext \<Rightarrow> Line \<Rightarrow> span list \<Rightarrow> Line" where
  "Line_add E line spans =
     line\<lparr>line_spans := line_spans line @ spans, line_bbox := line_add_bbox E line spans\<rparr>"

subsection \<open>sort\<close>

text \<open>
  The loop that splits the lines into rows.  \<open>lines_in_rows\<close> is the list of rows built
  so far; \<^verbatim>\<open>lines_in_rows[-1][-1]\<close> is the last line of the last row.
\<close>

fun rows_loop :: "ext \<Rightarrow> Line list list \<Rightarrow> Line list \<Rightarrow> Line list list" where
  "rows_loop E lines_in_rows [] = lines_in_rows"
| "rows_loop E lines_in_rows (line # rest) =
     (if lines_in_rows = [] \<or> \<not> in_same_row E line (last (last lines_in_rows))
      then rows_loop E (lines_in_rows @ [[line]]) rest
      else rows_loop E (butlast lines_in_rows @ [last lines_in_rows @ [line]]) rest)"

text \<open>
  \<^verbatim>\<open>Lines.sort\<close>.  \<^verbatim>\<open>row.sort(key=...)\<close> is a stable sort by the key, as \<open>sort_key\<close>
  is.
\<close>

definition Lines_sort :: "ext \<Rightarrow> Lines \<Rightarrow> Lines" where
  "Lines_sort E self =
     (let self = self\<lparr>instances := sort_in_reading_order E self\<rparr>;
          lines_in_rows = rows_loop E [] (instances self);
          idx = (if lines_is_horizontal_text E self then 0 else 3)
      in self\<lparr>instances :=
                concat (map (sort_key (\<lambda>line. rect_index (line_bbox line) idx)) lines_in_rows)\<rparr>)"

subsection \<open>join\<close>

text \<open>The diagnostic line printed for a discarded line.\<close>

definition ignore_message :: "ext \<Rightarrow> Line \<Rightarrow> nat list" where
  "ignore_message E line =
     map of_char ''Ignore Line '' @ [0x22] @ line_text E line @ [0x22]
       @ map of_char '' due to overlap''"

text \<open>
  The loop of \<^verbatim>\<open>join\<close>: \<open>lines\<close> is the collection of accepted lines, \<open>out\<close> the
  diagnostics printed so far.
\<close>

fun join_loop ::
    "ext \<Rightarrow> real \<Rightarrow> real \<Rightarrow> Lines \<Rightarrow> nat list list \<Rightarrow> Line list
       \<Rightarrow> Lines \<times> nat list list" where
  "join_loop E line_overlap_threshold line_merging_threshold lines out [] = (lines, out)"
| "join_loop E line_overlap_threshold line_merging_threshold lines out (line # rest) =
     (if instances lines = [] then
        join_loop E line_overlap_threshold line_merging_threshold
          (Lines_append lines line) out rest
      else if line_get_main_bbox E line (last (instances lines)) line_overlap_threshold then
        join_loop E line_overlap_threshold line_merging_threshold
          lines (out @ [ignore_message E line]) rest
      else if \<not> in_same_row E line (last (instances lines)) then
        join_loop E line_overlap_threshold line_merging_threshold
          (Lines_append lines line) out rest
      else if \<bar>float_sub E (x0 (line_bbox line)) (x1 (line_bbox (last (instances lines))))\<bar>
                > line_merging_threshold then
        join_loop E line_overlap_threshold line_merging_threshold
          (Lines_append lines line) out rest
      else
        join_loop E line_overlap_threshold line_merging_threshold
          (lines\<lparr>instances :=
                   butlast (instances lines)
                     @ [Line_add E (last (instances lines)) (line_spans line)]\<rparr>)
          out rest)"

text \<open>
  \<^verbatim>\<open>Lines.join\<close>: the collection after the call and the diagnostics printed.
  \<^verbatim>\<open>Lines()\<close> is a collection with no line and no parent.
\<close>

definition Lines_join :: "ext \<Rightarrow> real \<Rightarrow> real \<Rightarrow> Lines \<Rightarrow> Lines \<times> nat list list" where
  "Lines_join E line_overlap_threshold line_merging_threshold self =
     (if instances self = [] then (self, [])
      else
        (let self = Lines_sort E self;
             (lines, out) =
               join_loop E line_overlap_threshold line_merging_threshold
                 \<lparr>instances = [], parent = None\<rparr> [] (instances self)
         in (Collection_reset E self (instances lines), out)))"

subsection \<open>strip\<close>

text \<open>
  \<^verbatim>\<open>Lines.strip\<close>: every line is stripped (the comprehension does not stop early);
  \<^verbatim>\<open>self._parent.update_bbox\<close> on a collection without parent is an
  \<open>AttributeError\<close>.
\<close>

definition Lines_strip :: "ext \<Rightarrow> Lines \<Rightarrow> Lines \<times> (error + bool)" where
  "Lines_strip E self =
     (let results = map (line_strip E) (instances self);
          self = self\<lparr>instances := map fst results\<rparr>;
          status = map snd results;
          stripped = list_ex (\<lambda>b. b) status
      in if stripped then
           (case parent self of
              None \<Rightarrow> (self, Inl AttributeError)
            | Some p \<Rightarrow> (self\<lparr>parent := Some (update_bbox E p (lines_bbox E self))\<rparr>, Inr stripped))
         else (self, Inr stripped))"

subsection \<open>parse_text_format\<close>

text \<open>The positional arguments of a call of \<^verbatim>\<open>split\<close>.\<close>

datatype call_arg = ARect Rectangle | ABool bool

text \<open>
  A call \<^verbatim>\<open>span.split(args...)\<close> on a text-run.  The signature is
  \<^verbatim>\<open>split(self, rect)\<close>: one argument binds to \<^verbatim>\<open>rect\<close>; any other number of
  arguments is a \<open>TypeError\<close>.  A boolean bound to \<^verbatim>\<open>rect\<close> has no \<^verbatim>\<open>bbox\<close>.
\<close>

definition call_split ::
    "ext \<Rightarrow> TextSpan \<Rightarrow> call_arg list \<Rightarrow> TextSpan \<times> (error + TextSpan list)" where
  "call_split E sp args =
     (case args of
        [ARect rect] \<Rightarrow> TextSpan_split E sp rect
      | [ABool b] \<Rightarrow> (sp, Inl AttributeError)
      | _ \<Rightarrow> (sp, Inl TypeError))"

text \<open>
  The inner loop over the runs of one line: \<open>split_spans\<close> and \<open>flag\<close> so far.  The call
  site passes two arguments: \<^verbatim>\<open>span.split(rect, line.is_horizontal_text)\<close>.
\<close>

fun split_spans_loop ::
    "ext \<Rightarrow> Rectangle \<Rightarrow> Line \<Rightarrow> span list \<Rightarrow> bool \<Rightarrow> span list \<Rightarrow> error + span list \<times> bool" where
  "split_spans_loop E rect line split_spans flag [] = Inr (split_spans, flag)"
| "split_spans_loop E rect line split_spans flag (Image im # rest) =
     split_spans_loop E rect line (split_spans @ [Image im]) flag rest"
| "split_spans_loop E rect line split_spans flag (Text sp # rest) =
     (case snd (call_split E sp [ARect rect, ABool (line_is_horizontal_text E line)]) of
        Inl e \<Rightarrow> Inl e
      | Inr spans \<Rightarrow> split_spans_loop E rect line (split_spans @ map Text spans) True rest)"

text \<open>
  The loop over the lines.  The result is the lines after the loop and either the
  exception raised or the flag.  \<^verbatim>\<open>line.spans.reset(split_spans)\<close> replaces the line's
  run sequence.
\<close>

fun ptf_loop ::
    "ext \<Rightarrow> Rectangle \<Rightarrow> bool \<Rightarrow> Line list \<Rightarrow> Line list \<times> (error + bool)" where
  "ptf_loop E rect flag [] = ([], Inr flag)"
| "ptf_loop E rect flag (line # rest) =
     (let intsec = rect_and E (rect_bbox rect) (get_expand_bbox E line (MAJOR_DIST E)) in
      if \<not> rect_bool E intsec then
        (if y1 (rect_bbox rect) < y0 (line_bbox line) then (line # rest, Inr flag)
         else (let (rest', r) = ptf_loop E rect flag rest in (line # rest', r)))
      else
        (case split_spans_loop E rect line [] flag (line_spans line) of
           Inl e \<Rightarrow> (line # rest, Inl e)
         | Inr (split_spans, flag') \<Rightarrow>
             (let (rest', r) = ptf_loop E rect flag' rest
              in (line\<lparr>line_spans := split_spans\<rparr> # rest', r))))"

definition Lines_parse_text_format ::
    "ext \<Rightarrow> Lines \<Rightarrow> Rectangle \<Rightarrow> Lines \<times> (error + bool)" where
  "Lines_parse_text_format E self rect =
     (let (ls, r) = ptf_loop E rect False (instances self) in (self\<lparr>instances := ls\<rparr>, r))"

subsection \<open>parse_line_break\<close>

text \<open>
  \<^verbatim>\<open>not s.strip()\<close>: the string is empty once the whitespace at both ends is removed,
  that is, every character of it is whitespace.  The whitespace of \<^verbatim>\<open>str.strip()\<close> is
  the 29 code points for which \<^verbatim>\<open>str.isspace\<close> holds: U+0009..U+000D, U+001C..U+001F,
  U+0020, U+0085, U+00A0, U+1680, U+2000..U+200A, U+2028, U+2029, U+202F, U+205F, U+3000.
\<close>

definition py_isspace :: "nat \<Rightarrow> bool" where
  "py_isspace cp =
     ((0x09 \<le> cp \<and> cp \<le> 0x0D) \<or> (0x1C \<le> cp \<and> cp \<le> 0x1F) \<or> cp = 0x20
      \<or> cp = 0x85 \<or> cp = 0xA0 \<or> cp = 0x1680 \<or> (0x2000 \<le> cp \<and> cp \<le> 0x200A)
      \<or> cp = 0x2028 \<or> cp = 0x2029 \<or> cp = 0x202F \<or> cp = 0x205F \<or> cp = 0x3000)"

definition is_blank :: "nat list \<Rightarrow> bool" where
  "is_blank s = list_all py_isspace s"

text \<open>
  The \<^verbatim>\<open>if\<close>/\<^verbatim>\<open>elif\<close> chain for one line; \<open>rest\<close> is the lines after it, so
  \<^verbatim>\<open>self._instances[i+1]\<close> is the head of \<open>rest\<close>.  The ratio is computed in doubles:
  a subtraction, \<^verbatim>\<open>abs\<close>, an addition and a division, which raises
  \<open>ZeroDivisionError\<close> when the width is zero; the comparison with the threshold is the
  exact \<^verbatim>\<open>>\<close> on the two doubles.
\<close>

definition line_break_of ::
    "ext \<Rightarrow> Block \<Rightarrow> nat \<Rightarrow> real \<Rightarrow> real \<Rightarrow> real \<Rightarrow> Line \<Rightarrow> Line \<Rightarrow> Line list \<Rightarrow> error + int" where
  "line_break_of E block idx delta_space width line_free_space_ratio_threshold lastl line rest =
     (if line_id line = line_id lastl then Inr 0
      else
        (case rest of
           [] \<Rightarrow> Inl IndexError
         | nxt # _ \<Rightarrow>
             if in_same_row E line nxt then Inr 0
             else if width = 0 then Inl ZeroDivisionError
             else if float_div E
                       (float_add E
                          \<bar>float_sub E (rect_index (block_bbox block) idx)
                                          (rect_index (line_bbox line) idx)\<bar>
                          delta_space)
                       width
                     > line_free_space_ratio_threshold
             then Inr 1
             else if is_blank (line_text E nxt) then Inr 1
             else Inr 0))"

text \<open>
  The loop: the lines after it (those before a raise already carry their new
  \<^verbatim>\<open>line_break\<close>), and the exception, if one was raised.
\<close>

fun plb_loop ::
    "ext \<Rightarrow> Block \<Rightarrow> nat \<Rightarrow> real \<Rightarrow> real \<Rightarrow> real \<Rightarrow> Line \<Rightarrow> Line list \<Rightarrow> Line list \<times> error option" where
  "plb_loop E block idx delta_space width thr lastl [] = ([], None)"
| "plb_loop E block idx delta_space width thr lastl (line # rest) =
     (case line_break_of E block idx delta_space width thr lastl line rest of
        Inl e \<Rightarrow> (line # rest, Some e)
      | Inr v \<Rightarrow>
          (let (rest', r) = plb_loop E block idx delta_space width thr lastl rest
           in (line\<lparr>line_break := v\<rparr> # rest', r)))"

text \<open>
  \<^verbatim>\<open>Lines.parse_line_break\<close>: the collection after the call, and the exception raised,
  if any.  \<^verbatim>\<open>self._instances[-1]\<close> is only evaluated inside the loop.
\<close>

definition Lines_parse_line_break :: "ext \<Rightarrow> Lines \<Rightarrow> real \<Rightarrow> Lines \<times> error option" where
  "Lines_parse_line_break E self line_free_space_ratio_threshold =
     (case parent self of
        None \<Rightarrow> (self, Some AttributeError)
      | Some block \<Rightarrow>
          (let idx0 = (if is_horizontal_text block then 0 else 3);
               idx1 = (idx0 + 2) mod 4;
               width = \<bar>float_sub E (rect_index (block_bbox block) idx1)
                                       (rect_index (block_bbox block) idx0)\<bar>;
               (delta_space, idx) =
                 (if alignment block = RIGHT
                  then (float_sub E (left_space_total block) (left_space block), idx0)
                  else (float_sub E (right_space_total block) (right_space block), idx1))
           in case instances self of
                [] \<Rightarrow> (self, None)
              | _ # _ \<Rightarrow>
                  (let (ls, r) =
                         plb_loop E block idx delta_space width line_free_space_ratio_threshold
                           (last (instances self)) (instances self)
                   in (self\<lparr>instances := ls\<rparr>, r))))"

section \<open>The runs held by a collection\<close>

text \<open>Every run (text-run or inline image) of every line of the list.\<close>

definition runs_of :: "Line list \<Rightarrow> span set" where
  "runs_of ls = (\<Union>line \<in> set ls. set (line_spans line))"

section \<open>The claim's own notions for parse_line_break\<close>

text \<open>
  The width of the block along the text direction and the free-space ratio of a line,
  as the specification words them and as the code computes them, in doubles: \<open>idx0\<close> is
  0 for horizontal text and 3 otherwise, \<open>idx1 = (idx0 + 2) mod 4\<close>; a right-aligned
  block compares the edge \<open>idx0\<close> and uses the left space, any other block the edge
  \<open>idx1\<close> and the right space.
\<close>

definition block_idx0 :: "Block \<Rightarrow> nat" where
  "block_idx0 block = (if is_horizontal_text block then 0 else 3)"

definition block_width :: "ext \<Rightarrow> Block \<Rightarrow> real" where
  "block_width E block =
     \<bar>float_sub E (rect_index (block_bbox block) ((block_idx0 block + 2) mod 4))
                   (rect_index (block_bbox block) (block_idx0 block))\<bar>"

definition compare_edge :: "Block \<Rightarrow> nat" where
  "compare_edge block =
     (if alignment block = RIGHT then block_idx0 block else (block_idx0 block + 2) mod 4)"

definition block_delta_space :: "ext \<Rightarrow> Block \<Rightarrow> real" where
  "block_delta_space E block =
     (if alignment block = RIGHT then float_sub E (left_space_total block) (left_space block)
      else float_sub E (right_space_total block) (right_space block))"

definition free_space_ratio :: "ext \<Rightarrow> Block \<Rightarrow> Line \<Rightarrow> real" where
  "free_space_ratio E block line =
     float_div E
       (float_add E
          \<bar>float_sub E (rect_index (block_bbox block) (compare_edge block))
                        (rect_index (line_bbox line) (compare_edge block))\<bar>
          (block_delta_space E block))
       (block_width E block)"

text \<open>
  Line \<open>i\<close> of the list reaches the ratio test: it is not the last line and it does not
  share a row with the next line.
\<close>

definition reaches_ratio_test :: "ext \<Rightarrow> Line list \<Rightarrow> nat \<Rightarrow> bool" where
  "reaches_ratio_test E ls i =
     (line_id (ls ! i) \<noteq> line_id (last ls) \<and> \<not> in_same_row E (ls ! i) (ls ! Suc i))"

section \<open>A reference instance of the external contracts\<close>

text \<open>
  Plain rectangle geometry, plain codecs and arithmetic without rounding, used to run the
  operations on concrete inputs.
\<close>

definition plain_and :: "rect \<Rightarrow> rect \<Rightarrow> rect" where
  "plain_and a b =
     (let r = \<lparr>x0 = max (x0 a) (x0 b), y0 = max (y0 a) (y0 b),
                x1 = min (x1 a) (x1 b), y1 = min (y1 a) (y1 b)\<rparr>
      in if x1 r < x0 r \<or> y1 r < y0 r then Rect0 else r)"

definition plain_or :: "rect \<Rightarrow> rect \<Rightarrow> rect" where
  "plain_or a b =
     \<lparr>x0 = min (x0 a) (x0 b), y0 = min (y0 a) (y0 b),
      x1 = max (x1 a) (x1 b), y1 = max (y1 a) (y1 b)\<rparr>"

definition plain_bool :: "rect \<Rightarrow> bool" where
  "plain_bool r = (\<not> (x0 r = 0 \<and> y0 r = 0 \<and> x1 r = 0 \<and> y1 r = 0))"

definition plain_contains :: "rect \<Rightarrow> rect \<Rightarrow> bool" where
  "plain_contains a b = (x0 a \<le> x0 b \<and> y0 a \<le> y0 b \<and> x1 b \<le> x1 a \<and> y1 b \<le> y1 a)"

definition plain_intersects :: "rect \<Rightarrow> rect \<Rightarrow> bool" where
  "plain_intersects a b =
     (max (x0 a) (x0 b) < min (x1 a) (x1 b) \<and> max (y0 a) (y0 b) < min (y1 a) (y1 b))"

definition plain_bbox_store :: "rect \<Rightarrow> pydict" where
  "plain_bbox_store r =
     [(''bbox'', PList [PFloat (x0 r), PFloat (y0 r), PFloat (x1 r), PFloat (y1 r)])]"

definition plain_bbox_init :: "pydict \<Rightarrow> rect" where
  "plain_bbox_init raw =
     (case map_of raw ''bbox'' of
        Some (PList [PFloat a, PFloat b, PFloat c, PFloat d]) \<Rightarrow>
          \<lparr>x0 = a, y0 = b, x1 = c, y1 = d\<rparr>
      | _ \<Rightarrow> Rect0)"

definition plain_char_store :: "Char_obj \<Rightarrow> pyval" where
  "plain_char_store ch = PDict (plain_bbox_store (char_bbox ch) @ [(''c'', PStr (char_c ch))])"

definition plain_char_init :: "pyval \<Rightarrow> Char_obj" where
  "plain_char_init v =
     (case v of
        PDict raw \<Rightarrow>
          \<lparr>char_bbox = plain_bbox_init raw,
           char_c = (case map_of raw ''c'' of Some (PStr s) \<Rightarrow> s | _ \<Rightarrow> [])\<rparr>
      | _ \<Rightarrow> \<lparr>char_bbox = Rect0, char_c = []\<rparr>)"

definition plain_expand :: "Line \<Rightarrow> real \<Rightarrow> rect" where
  "plain_expand line d =
     \<lparr>x0 = x0 (line_bbox line) - d, y0 = y0 (line_bbox line) - d,
      x1 = x1 (line_bbox line) + d, y1 = y1 (line_bbox line) + d\<rparr>"

definition plain_same_row :: "Line \<Rightarrow> Line \<Rightarrow> bool" where
  "plain_same_row a b =
     (y0 (line_bbox a) < y1 (line_bbox b) \<and> y0 (line_bbox b) < y1 (line_bbox a))"

definition plain_span_text :: "span \<Rightarrow> string" where
  "plain_span_text s =
     (case s of Text sp \<Rightarrow> concat (map char_c (span_chars sp)) | Image im \<Rightarrow> ''<image>'')"

definition plain_line_text :: "Line \<Rightarrow> nat list" where
  "plain_line_text line = map of_char (concat (map plain_span_text (line_spans line)))"

definition plain_line_strip :: "Line \<Rightarrow> Line \<times> bool" where
  "plain_line_strip line =
     (case line_spans line of
        Text sp # rest \<Rightarrow>
          if span_chars sp = [] then (line\<lparr>line_spans := rest\<rparr>, True) else (line, False)
      | _ \<Rightarrow> (line, False))"

definition plain_lines_bbox :: "Lines \<Rightarrow> rect" where
  "plain_lines_bbox c =
     (case instances c of
        [] \<Rightarrow> Rect0
      | l # ls \<Rightarrow> fold (\<lambda>line acc. plain_or acc (line_bbox line)) ls (line_bbox l))"

definition E0 :: ext where
  "E0 =
     \<lparr>float_sub = (\<lambda>a b. a - b),
      float_add = (\<lambda>a b. a + b),
      float_div = (\<lambda>a b. a / b),
      rect_and = plain_and,
      rect_or = plain_or,
      rect_bool = plain_bool,
      rect_contains = plain_contains,
      rect_intersects = plain_intersects,
      bbox_init = plain_bbox_init,
      bbox_store = plain_bbox_store,
      bbox_update = (\<lambda>r. r),
      char_init = plain_char_init,
      char_store = plain_char_store,
      contained_in_rect = (\<lambda>ch rect. plain_contains (rect_bbox rect) (char_bbox ch)),
      to_text_style = (\<lambda>rect sp. Some \<lparr>style_type = 1, style_color = 0\<rparr>),
      get_main_bbox = (\<lambda>a b t. plain_intersects a b),
      MAJOR_DIST = 5,
      get_expand_bbox = plain_expand,
      line_is_horizontal_text = (\<lambda>line. True),
      line_get_main_bbox = (\<lambda>a b t. plain_contains (line_bbox b) (line_bbox a)),
      in_same_row = plain_same_row,
      line_text = plain_line_text,
      line_strip = plain_line_strip,
      line_add_bbox = (\<lambda>line spans. line_bbox line),
      sort_in_reading_order = (\<lambda>c. sort_key (\<lambda>line. y0 (line_bbox line)) (instances c)),
      lines_is_horizontal_text = (\<lambda>c. True),
      lines_bbox = plain_lines_bbox,
      update_bbox = (\<lambda>block r. block\<lparr>block_bbox := r\<rparr>)\<rparr>"

subsection \<open>Concrete inputs\<close>

definition mk_rect :: "real \<Rightarrow> real \<Rightarrow> real \<Rightarrow> real \<Rightarrow> rect" where
  "mk_rect a b c d = \<lparr>x0 = a, y0 = b, x1 = c, y1 = d\<rparr>"

text \<open>The run \<^verbatim>\<open>abc\<close>: three characters of width 10 on one base line.\<close>

definition run_abc :: TextSpan where
  "run_abc =
     \<lparr>span_bbox = mk_rect 0 0 30 10,
      span_color = PInt 0,
      span_font = PStr ''Arial'',
      span_size = PFloat 12,
      span_flags = PInt 0,
      span_chars =
        [\<lparr>char_bbox = mk_rect 0 0 10 10, char_c = ''a''\<rparr>,
         \<lparr>char_bbox = mk_rect 10 0 20 10, char_c = ''b''\<rparr>,
         \<lparr>char_bbox = mk_rect 20 0 30 10, char_c = ''c''\<rparr>],
      span_text = None,
      span_style = []\<rparr>"

text \<open>A style shape over the character \<^verbatim>\<open>b\<close>, and one far away from the run.\<close>

definition shape_b :: Rectangle where
  "shape_b = \<lparr>rect_bbox = mk_rect 10 0 20 10\<rparr>"

definition shape_far :: Rectangle where
  "shape_far = \<lparr>rect_bbox = mk_rect 100 100 120 110\<rparr>"

definition mk_line :: "nat \<Rightarrow> rect \<Rightarrow> span list \<Rightarrow> int \<Rightarrow> Line" where
  "mk_line i bb spans lb =
     \<lparr>line_id = i, line_bbox = bb, line_spans = spans, pid = None, line_break = lb\<rparr>"

definition mk_block :: "rect \<Rightarrow> Block" where
  "mk_block bb =
     \<lparr>block_id = 7, block_bbox = bb, is_horizontal_text = True, alignment = OtherAlignment 0,
      left_space = 0, left_space_total = 0, right_space = 0, right_space_total = 0\<rparr>"

text \<open>A collection with the single line \<^verbatim>\<open>abc\<close>.\<close>

definition lines_abc :: Lines where
  "lines_abc =
     \<lparr>instances = [mk_line 1 (mk_rect 0 0 30 10) [Text run_abc] 0],
      parent = Some (mk_block (mk_rect 0 0 30 10))\<rparr>"

text \<open>A run with the given glyphs.\<close>

definition run_of :: "string \<Rightarrow> TextSpan" where
  "run_of s = run_abc\<lparr>span_chars := map (\<lambda>ch. \<lparr>char_bbox = Rect0, char_c = [ch]\<rparr>) s\<rparr>"

text \<open>
  A block of width 100 with two lines in different rows: the first ends 51 short of the
  block's right edge.
\<close>

definition lines_51 :: Lines where
  "lines_51 =
     \<lparr>instances =
        [mk_line 1 (mk_rect 0 0 49 10) [Text (run_of ''ab'')] 0,
         mk_line 2 (mk_rect 0 20 100 30) [Text (run_of ''cd'')] 1],
      parent = Some (mk_block (mk_rect 0 0 100 30))\<rparr>"

text \<open>The same block with the first line ending 49 short of the right edge.\<close>

definition lines_49 :: Lines where
  "lines_49 =
     \<lparr>instances =
        [mk_line 1 (mk_rect 0 0 51 10) [Text (run_of ''ab'')] 1,
         mk_line 2 (mk_rect 0 20 100 30) [Text (run_of ''cd'')] 1],
      parent = Some (mk_block (mk_rect 0 0 100 30))\<rparr>"

text \<open>
  The same block again, the second line holding a single no-break space (U+00A0).
\<close>

definition lines_49_nbsp :: Lines where
  "lines_49_nbsp =
     \<lparr>instances =
        [mk_line 1 (mk_rect 0 0 51 10) [Text (run_of ''ab'')] 0,
         mk_line 2 (mk_rect 0 20 100 30) [Text (run_of [CHR 0xA0])] 0],
      parent = Some (mk_block (mk_rect 0 0 100 30))\<rparr>"

text \<open>
  A block of width 64 whose first line ends 33 short of the right edge, and one whose
  first line ends 31 short of it.  On these inputs every double operation of the ratio is
  exact: \<open>64 - 31 = 33\<close>, \<open>33 + 0\<close>, \<open>33 / 64\<close> (and \<open>64 - 33 = 31\<close>, \<open>31 / 64\<close>).
\<close>

definition lines_33_64 :: Lines where
  "lines_33_64 =
     \<lparr>instances =
        [mk_line 1 (mk_rect 0 0 31 10) [Text (run_of ''ab'')] 0,
         mk_line 2 (mk_rect 0 20 64 30) [Text (run_of ''cd'')] 1],
      parent = Some (mk_block (mk_rect 0 0 64 30))\<rparr>"

definition lines_31_64 :: Lines where
  "lines_31_64 =
     \<lparr>instances =
        [mk_line 1 (mk_rect 0 0 33 10) [Text (run_of ''ab'')] 1,
         mk_line 2 (mk_rect 0 20 64 30) [Text (run_of ''cd'')] 1],
      parent = Some (mk_block (mk_rect 0 0 64 30))\<rparr>"

text \<open>A block of width zero with a single line.\<close>

definition lines_zero_width_single :: Lines where
  "lines_zero_width_single =
     \<lparr>instances = [mk_line 1 (mk_rect 5 0 5 10) [Text (run_of ''ab'')] 1],
      parent = Some (mk_block (mk_rect 5 0 5 10))\<rparr>"

text \<open>
  A block of width zero: two lines of zero width in different rows; the last line carries
  \<^verbatim>\<open>line_break = 1\<close> from its raw record.
\<close>

definition lines_zero_width :: Lines where
  "lines_zero_width =
     \<lparr>instances =
        [mk_line 1 (mk_rect 5 0 5 10) [Text (run_of ''ab'')] 0,
         mk_line 2 (mk_rect 5 20 5 30) [Text (run_of ''cd'')] 1],
      parent = Some (mk_block (mk_rect 5 0 5 30))\<rparr>"

text \<open>
  Three lines out of reading order; the second and third share a row and are adjacent.
\<close>

definition lines_three :: Lines where
  "lines_three =
     \<lparr>instances =
        [mk_line 3 (mk_rect 0 20 40 30) [Text (run_of ''ef'')] 0,
         mk_line 1 (mk_rect 0 0 40 10) [Text (run_of ''ab'')] 0,
         mk_line 2 (mk_rect 41 1 80 11) [Text (run_of ''cd'')] 0],
      parent = Some (mk_block (mk_rect 0 0 80 30))\<rparr>"

text \<open>A line that starts with an empty run, and a line that does not.\<close>

definition lines_blank_start :: Lines where
  "lines_blank_start =
     \<lparr>instances =
        [mk_line 1 (mk_rect 0 0 40 10) [Text (run_of []), Text (run_of ''ab'')] 0,
         mk_line 2 (mk_rect 0 20 40 30) [Text (run_of ''cd'')] 0],
      parent = Some (mk_block (mk_rect 0 0 40 30))\<rparr>"

section \<open>Properties of TextSpan\<close>

subsection \<open>Slices\<close>

text \<open>
  The three slices \<^verbatim>\<open>[0:pos]\<close>, \<^verbatim>\<open>[pos:pos_end]\<close>, \<^verbatim>\<open>[pos_end:]\<close> taken by
  \<^verbatim>\<open>split\<close> partition the sequence whenever \<open>0 \<le> pos \<le> pos_end\<close>.
\<close>

lemma split_slices_partition:
  assumes "0 \<le> pos" and "pos \<le> pos_end"
  shows "py_slice xs 0 (Some pos) @ py_slice xs pos (Some pos_end) @ py_slice xs pos_end None = xs"
proof -
  define n where "n = length xs"
  define p where "p = min (nat pos) n"
  define q where "q = min (nat pos_end) n"
  have pq: "p \<le> q" using assms by (auto simp: p_def q_def min_def)
  have "take (q - p) (drop p xs) @ drop q xs = drop p xs"
    using pq by (metis append_take_drop_id drop_drop le_add_diff_inverse2)
  then have "take p xs @ take (q - p) (drop p xs) @ drop q xs = xs" by simp
  moreover have "q \<le> n" by (simp add: q_def)
  ultimately show ?thesis
    using assms by (simp add: py_slice_def slice_bound_def Let_def p_def q_def n_def)
qed

subsection \<open>The receiver of split\<close>

lemma text_frame:
  "fst (TextSpan_text self) = self\<lparr>span_text := Some (snd (TextSpan_text self))\<rparr>"
  by (cases self) (auto simp: TextSpan_text_def Let_def split: option.splits)

lemma text_read_twice:
  "TextSpan_text (fst (TextSpan_text s)) = (fst (TextSpan_text s), snd (TextSpan_text s))"
  by (simp add: TextSpan_text_def Let_def split: option.splits)

lemma split_part_fst: "fst (split_part self bb a b) = fst (TextSpan_text self)"
  by (cases "TextSpan_text self") (simp add: split_part_def Let_def)

lemma split_part_raises: "snd (split_part self bb a b) = Inl AttributeError"
  by (simp add: split_part_def set_text_def Let_def split: prod.splits)

lemma ubc_refl: "unchanged_but_cache s s"
  by (simp add: unchanged_but_cache_def)

lemma ubc_trans:
  "unchanged_but_cache s s1 \<Longrightarrow> unchanged_but_cache s1 s2 \<Longrightarrow> unchanged_but_cache s s2"
  unfolding unchanged_but_cache_def using text_read_twice by auto

text \<open>The \<^verbatim>\<open>text\<close> property reads the same on both runs.\<close>

lemma ubc_text:
  "unchanged_but_cache s s' \<Longrightarrow> snd (TextSpan_text s') = snd (TextSpan_text s)"
  unfolding unchanged_but_cache_def using text_read_twice by auto

text \<open>Every attribute set by the constructor, and the style list, is the same.\<close>

lemma ubc_attrs:
  assumes "unchanged_but_cache s s'"
  shows "span_bbox s' = span_bbox s \<and> span_color s' = span_color s
    \<and> span_font s' = span_font s \<and> span_size s' = span_size s
    \<and> span_flags s' = span_flags s \<and> span_chars s' = span_chars s
    \<and> span_style s' = span_style s"
proof -
  have "s' = s \<or> s' = s\<lparr>span_text := Some (snd (TextSpan_text s))\<rparr>"
    using assms text_frame [of s] by (simp add: unchanged_but_cache_def)
  then show ?thesis by auto
qed

lemma ubc_chars: "unchanged_but_cache s s' \<Longrightarrow> span_chars s' = span_chars s"
  using ubc_attrs by blast

lemma split_part_ubc: "unchanged_but_cache self (fst (split_part self bb a b))"
  by (simp add: unchanged_but_cache_def split_part_fst)

lemma split_left_ubc: "unchanged_but_cache self (fst (split_left self intsec pos))"
  by (simp add: split_left_def Let_def case_prod_beta split_part_ubc ubc_refl)

lemma split_middle_ubc:
  "unchanged_but_cache self (fst (split_middle E self rect intsec pos len pos_end))"
  by (simp add: split_middle_def Let_def case_prod_beta split_part_ubc ubc_refl)

lemma split_right_ubc: "unchanged_but_cache self (fst (split_right self intsec pos_end))"
  by (simp add: split_right_def Let_def case_prod_beta split_part_ubc ubc_refl)

lemma split_parts_ubc:
  "unchanged_but_cache self (fst (split_parts E self rect intsec pos len pos_end))"
proof -
  let ?s1 = "fst (split_left self intsec pos)"
  let ?s2 = "fst (split_middle E ?s1 rect intsec pos len pos_end)"
  let ?s3 = "fst (split_right ?s2 intsec pos_end)"
  have f1: "unchanged_but_cache self ?s1" by (rule split_left_ubc)
  have f2: "unchanged_but_cache self ?s2" by (rule ubc_trans [OF f1 split_middle_ubc])
  have f3: "unchanged_but_cache self ?s3" by (rule ubc_trans [OF f2 split_right_ubc])
  have "fst (split_parts E self rect intsec pos len pos_end) = ?s1
        \<or> fst (split_parts E self rect intsec pos len pos_end) = ?s2
        \<or> fst (split_parts E self rect intsec pos len pos_end) = ?s3"
    by (simp add: split_parts_def Let_def case_prod_beta split: sum.splits)
  then show ?thesis using f1 f2 f3 by auto
qed

lemma split_ubc: "unchanged_but_cache self (fst (TextSpan_split E self rect))"
  by (simp add: TextSpan_split_def Let_def split_parts_ubc ubc_refl)

subsection \<open>The outcome of split\<close>

lemma split_left_result:
  "snd (split_left self intsec pos) = (if pos > 0 then Inl AttributeError else Inr [])"
  by (simp add: split_left_def Let_def case_prod_beta split_part_raises)

lemma split_middle_result:
  "snd (split_middle E self rect intsec pos len pos_end)
     = (if len > 0 then Inl AttributeError else Inr [])"
  by (simp add: split_middle_def Let_def case_prod_beta split_part_raises)

lemma split_right_result:
  "snd (split_right self intsec pos_end)
     = (if pos_end < int (length (span_chars self)) then Inl AttributeError else Inr [])"
  by (simp add: split_right_def Let_def case_prod_beta split_part_raises)

lemma split_parts_result:
  "snd (split_parts E self rect intsec pos len pos_end)
     = (if pos > 0 \<or> len > 0 \<or> pos_end < int (length (span_chars self))
        then Inl AttributeError else Inr [])"
proof -
  let ?s1 = "fst (split_left self intsec pos)"
  let ?s2 = "fst (split_middle E ?s1 rect intsec pos len pos_end)"
  have c2: "span_chars ?s2 = span_chars self"
    using ubc_chars [OF ubc_trans [OF split_left_ubc split_middle_ubc]] .
  show ?thesis
    by (simp add: split_parts_def Let_def case_prod_beta split_left_result split_middle_result
        split_right_result c2 split: sum.splits)
qed

text \<open>
  Whenever the shape's bbox intersects the run's bbox, \<^verbatim>\<open>split\<close> raises
  \<open>AttributeError\<close> as soon as the run has a character: the first part that is built is
  assigned a \<^verbatim>\<open>text\<close>.  Only a run without characters gets through, with no part.
\<close>

lemma split_intersecting_result:
  assumes "rect_bool E (rect_and E (rect_bbox rect) (span_bbox self))"
  shows "snd (TextSpan_split E self rect)
           = (if span_chars self = [] then Inr [] else Inl AttributeError)"
proof -
  define index_chars where
    "index_chars = filter (\<lambda>items. contained_in_rect E (snd items) rect)
                 (enumerate 0 (span_chars self))"
  have le: "length index_chars \<le> length (span_chars self)"
    unfolding index_chars_def by (metis length_filter_le length_enumerate)
  show ?thesis
  proof (cases "index_chars = []")
    case True
    then show ?thesis using assms
      by (simp add: TextSpan_split_def Let_def split_parts_result index_chars_def [symmetric])
  next
    case False
    then have "span_chars self \<noteq> []" using le by auto
    then show ?thesis using assms False
      by (simp add: TextSpan_split_def Let_def split_parts_result index_chars_def [symmetric])
  qed
qed

text \<open>
  Claim C1.  The claim: for a run whose contained characters are a block
  \<open>[pos, pos + length)\<close> with \<open>pos \<ge> 0\<close>, \<^verbatim>\<open>split\<close> returns parts whose characters,
  concatenated, are the run's characters, the middle part carrying the style.  The code
  at such an input: the run \<^verbatim>\<open>abc\<close> and a shape over \<^verbatim>\<open>b\<close> (\<open>pos = 1\<close>,
  \<open>length = 1\<close>).  The left part is copied, its bbox and characters are set, and the
  assignment of its \<^verbatim>\<open>text\<close> raises \<open>AttributeError\<close>; no part is returned.  The
  receiver is left with its text cached.
\<close>

theorem split_styled_run_raises:
  "TextSpan_split E0 run_abc shape_b = (run_abc\<lparr>span_text := Some ''abc''\<rparr>, Inl AttributeError)"
  by (simp add: TextSpan_split_def E0_def run_abc_def shape_b_def mk_rect_def plain_and_def
      plain_bool_def plain_contains_def Rect0_def Let_def split_parts_def split_left_def
      split_part_def TextSpan_text_def set_text_def py_slice_def slice_bound_def enumerate_eq_zip)

text \<open>
  Claim C6.  For every run and every style shape whose bbox does not intersect the run's
  bbox (the intersection computed by \<^verbatim>\<open>rect.bbox & self.bbox\<close> is falsy), \<^verbatim>\<open>split\<close>
  returns exactly one part, the run itself: same bbox, same characters, same style list.
  The receiver is unchanged.
\<close>

theorem split_no_intersection:
  "\<not> rect_bool E (rect_and E (rect_bbox rect) (span_bbox self)) \<Longrightarrow>
   TextSpan_split E self rect = (self, Inr [self])"
  by (simp add: TextSpan_split_def)

theorem split_no_intersection_witness:
  "TextSpan_split E0 run_abc shape_far = (run_abc, Inr [run_abc])"
  using split_no_intersection [of E0 shape_far run_abc]
  by (simp add: E0_def run_abc_def shape_far_def mk_rect_def plain_and_def plain_bool_def Rect0_def)

text \<open>
  Claim C9.  \<^verbatim>\<open>split\<close> never mutates the receiving run: after the call, whether it
  returned or raised, the receiver is the run it was, at most with its derived text
  cached.  So its bbox, its character list and its style list are the same as before, as
  are its color, font, size and flags and the value its \<^verbatim>\<open>text\<close> property reads; and
  when the shape does not intersect the run, the result is the run itself and the
  receiver is unchanged altogether.  The parts are built on copies of the receiver.
\<close>

theorem split_frame:
  "unchanged_but_cache self (fst (TextSpan_split E self rect))
   \<and> span_bbox (fst (TextSpan_split E self rect)) = span_bbox self
   \<and> span_chars (fst (TextSpan_split E self rect)) = span_chars self
   \<and> span_style (fst (TextSpan_split E self rect)) = span_style self
   \<and> span_color (fst (TextSpan_split E self rect)) = span_color self
   \<and> span_font (fst (TextSpan_split E self rect)) = span_font self
   \<and> span_size (fst (TextSpan_split E self rect)) = span_size self
   \<and> span_flags (fst (TextSpan_split E self rect)) = span_flags self
   \<and> snd (TextSpan_text (fst (TextSpan_split E self rect))) = snd (TextSpan_text self)
   \<and> (\<not> rect_bool E (rect_and E (rect_bbox rect) (span_bbox self))
        \<longrightarrow> TextSpan_split E self rect = (self, Inr [self]))"
proof -
  have u: "unchanged_but_cache self (fst (TextSpan_split E self rect))"
    by (rule split_ubc)
  have e: "\<not> rect_bool E (rect_and E (rect_bbox rect) (span_bbox self))
        \<longrightarrow> TextSpan_split E self rect = (self, Inr [self])"
    by (simp add: TextSpan_split_def)
  from u ubc_attrs [OF u] ubc_text [OF u] e show ?thesis by blast
qed

theorem split_frame_witness:
  "TextSpan_split E0 run_abc shape_far = (run_abc, Inr [run_abc])
   \<and> span_chars (fst (TextSpan_split E0 run_abc shape_b)) = span_chars run_abc"
  using split_frame [of run_abc E0 shape_far] split_frame [of run_abc E0 shape_b]
  by (simp add: E0_def run_abc_def shape_far_def mk_rect_def plain_and_def plain_bool_def Rect0_def)

subsection \<open>intersect\<close>

text \<open>
  Claim C3.  The claim: for a rectangle that does not intersect the run's bbox,
  \<^verbatim>\<open>intersect\<close> returns an empty run rather than raising.  The code at such an input:
  the run \<^verbatim>\<open>abc\<close> and a rectangle far away from it.  The rectangle neither contains
  nor intersects the bbox, so \<^verbatim>\<open>TextSpan()\<close> is called; the constructor requires
  \<^verbatim>\<open>raw\<close>, and the call raises \<open>TypeError\<close>.
\<close>

theorem intersect_no_overlap_raises:
  "TextSpan_intersect E0 run_abc (rect_bbox shape_far) = Inl TypeError"
  by (simp add: TextSpan_intersect_def E0_def run_abc_def shape_far_def mk_rect_def
      plain_contains_def plain_intersects_def TextSpan_new_def)

text \<open>The same for every rectangle that neither contains nor intersects the bbox.\<close>

lemma intersect_no_overlap_general:
  "\<not> rect_contains E r (span_bbox self) \<Longrightarrow> \<not> rect_intersects E r (span_bbox self)
   \<Longrightarrow> TextSpan_intersect E self r = Inl TypeError"
  by (simp add: TextSpan_intersect_def TextSpan_new_def)

text \<open>A rectangle that contains the bbox gives a copy of the run.\<close>

lemma intersect_contains:
  "rect_contains E r (span_bbox self) \<Longrightarrow> TextSpan_intersect E self r = Inr self"
  by (simp add: TextSpan_intersect_def)

subsection \<open>store and reconstruction\<close>

lemma dict_get_update_hit: "dict_get (AList.update k v d) k dflt = v"
  by (simp add: dict_get_def update_conv')

lemma dict_get_update_miss:
  "k' \<noteq> k \<Longrightarrow> dict_get (AList.update k v d) k' dflt = dict_get d k' dflt"
  by (simp add: dict_get_def update_conv')

text \<open>
  Claim C5.  For every run, \<^verbatim>\<open>store()\<close> followed by reconstruction from the stored
  record yields a run with the same bbox, color, font, size, flags and characters (the
  cache is empty and the style list is empty in the new run), provided the base class
  reads back from the stored record the bbox it wrote and each character is read back
  from its stored record.
\<close>

theorem store_roundtrip:
  assumes "bbox_init E (TextSpan_store E s) = span_bbox s"
    and "\<forall>ch \<in> set (span_chars s). char_init E (char_store E ch) = ch"
  shows "TextSpan_new E [TextSpan_store E s] = Inr (s\<lparr>span_text := None, span_style := []\<rparr>)"
proof -
  have chars: "map (char_init E \<circ> char_store E) (span_chars s) = span_chars s"
    using assms(2) by (intro map_idI) simp
  have g: "dict_get (TextSpan_store E s) ''chars'' (PList [])
             = PList (map (char_store E) (span_chars s))"
    "dict_get (TextSpan_store E s) ''color'' (PInt 0) = span_color s"
    "dict_get (TextSpan_store E s) ''font'' PNone = span_font s"
    "dict_get (TextSpan_store E s) ''size'' (PFloat 12) = span_size s"
    "dict_get (TextSpan_store E s) ''flags'' (PInt 0) = span_flags s"
    by (simp_all add: TextSpan_store_def dict_update_def dict_get_update_hit dict_get_update_miss)
  have init: "TextSpan_init E (TextSpan_store E s)
      = Inr \<lparr>span_bbox = span_bbox s, span_color = span_color s, span_font = span_font s,
             span_size = span_size s, span_flags = span_flags s, span_chars = span_chars s,
             span_text = None, span_style = []\<rparr>"
    by (simp add: TextSpan_init_def py_iter_def g assms(1) chars)
  have "\<lparr>span_bbox = span_bbox s, span_color = span_color s, span_font = span_font s,
             span_size = span_size s, span_flags = span_flags s, span_chars = span_chars s,
             span_text = None, span_style = []\<rparr> = s\<lparr>span_text := None, span_style := []\<rparr>"
    by (cases s) simp
  with init show ?thesis by (simp add: TextSpan_new_def)
qed

theorem store_roundtrip_witness:
  "TextSpan_new E0 [TextSpan_store E0 run_abc]
     = Inr (run_abc\<lparr>span_text := None, span_style := []\<rparr>)"
proof -
  have h1: "bbox_init E0 (TextSpan_store E0 run_abc) = span_bbox run_abc"
    by (simp add: E0_def TextSpan_store_def dict_update_def plain_bbox_store_def
        plain_bbox_init_def update_conv' run_abc_def mk_rect_def)
  have h2: "\<forall>ch \<in> set (span_chars run_abc). char_init E0 (char_store E0 ch) = ch"
    by (simp add: E0_def run_abc_def plain_char_init_def plain_char_store_def
        plain_bbox_store_def plain_bbox_init_def mk_rect_def)
  show ?thesis using store_roundtrip [OF h1 h2] .
qed

section \<open>Properties of Lines\<close>

subsection \<open>sort\<close>

lemma rows_loop_concat:
  "mset (concat (rows_loop E rows ls)) = mset (concat rows) + mset ls"
proof (induction ls arbitrary: rows)
  case Nil
  then show ?case by simp
next
  case (Cons line rest)
  show ?case
  proof (cases "rows = [] \<or> \<not> in_same_row E line (last (last rows))")
    case True
    then show ?thesis using Cons.IH [of "rows @ [[line]]"] by simp
  next
    case False
    then have ne: "rows \<noteq> []" by simp
    have eq: "concat (butlast rows @ [last rows @ [line]]) = concat rows @ [line]"
      using ne by (metis append_butlast_last_id concat_append concat.simps append.assoc append_Nil2)
    have "mset (concat (butlast rows @ [last rows @ [line]])) = mset (concat rows) + {#line#}"
      unfolding eq by simp
    then show ?thesis
      using False Cons.IH [of "butlast rows @ [last rows @ [line]]"] by (simp del: concat_append)
  qed
qed

lemma concat_sorted_rows: "mset (concat (map (sort_key f) rows)) = mset (concat rows)"
  by (induction rows) simp_all

text \<open>
  Claim C10.  \<^verbatim>\<open>sort\<close> preserves the multiset of contained lines: after the call the
  collection holds the same lines as before, each as often as before, only in a possibly
  different order; the parent is untouched.  The row partition and the sort of each row
  neither drop nor duplicate a line.  The first step, the base collection's
  \<^verbatim>\<open>sort_in_reading_order\<close>, is external; it is assumed to reorder only.
\<close>

theorem sort_preserves_lines:
  assumes "mset (sort_in_reading_order E c) = mset (instances c)"
  shows "mset (instances (Lines_sort E c)) = mset (instances c)
         \<and> parent (Lines_sort E c) = parent c"
  using assms by (simp add: Lines_sort_def Let_def concat_sorted_rows rows_loop_concat)

theorem sort_preserves_lines_witness:
  "mset (instances (Lines_sort E0 lines_three)) = mset (instances lines_three)
   \<and> map line_id (instances (Lines_sort E0 lines_three)) = [1, 2, 3]"
proof -
  have h: "mset (sort_in_reading_order E0 lines_three) = mset (instances lines_three)"
    by (simp add: E0_def)
  have "map line_id (instances (Lines_sort E0 lines_three)) = [1, 2, 3]"
    by (simp add: Lines_sort_def E0_def lines_three_def mk_line_def mk_rect_def Let_def
        plain_same_row_def rect_index_def)
  with sort_preserves_lines [OF h] show ?thesis by simp
qed

subsection \<open>join\<close>

lemma runs_of_append: "runs_of (xs @ ys) = runs_of xs \<union> runs_of ys"
  by (simp add: runs_of_def)

lemma runs_of_Cons: "runs_of (l # ls) = set (line_spans l) \<union> runs_of ls"
  by (simp add: runs_of_def)

lemma runs_of_Nil: "runs_of [] = {}"
  by (simp add: runs_of_def)

lemma Lines_append_length:
  "length (instances (Lines_append lines line)) = Suc (length (instances lines))"
  by (simp add: Lines_append_def split: option.splits)

lemma Lines_append_runs:
  "runs_of (instances (Lines_append lines line)) = runs_of (instances lines) \<union> set (line_spans line)"
  by (simp add: Lines_append_def runs_of_append runs_of_Cons runs_of_Nil split: option.splits)

lemma add_last_length:
  "xs \<noteq> [] \<Longrightarrow> length (butlast xs @ [Line_add E (last xs) spans]) = length xs"
  by simp

lemma add_last_runs:
  assumes "xs \<noteq> []"
  shows "runs_of (butlast xs @ [Line_add E (last xs) spans]) = runs_of xs \<union> set spans"
proof -
  have "runs_of xs = runs_of (butlast xs) \<union> set (line_spans (last xs))"
    using assms by (metis append_butlast_last_id runs_of_append runs_of_Cons runs_of_Nil sup_bot.right_neutral)
  then show ?thesis
    by (auto simp: runs_of_append runs_of_Cons runs_of_Nil Line_add_def)
qed

lemma join_loop_Cons_cases:
  "join_loop E ot mt lines out (line # rest)
     = join_loop E ot mt (Lines_append lines line) out rest
   \<or> join_loop E ot mt lines out (line # rest)
     = join_loop E ot mt lines (out @ [ignore_message E line]) rest
   \<or> (instances lines \<noteq> []
      \<and> join_loop E ot mt lines out (line # rest)
        = join_loop E ot mt
            (lines\<lparr>instances := butlast (instances lines)
                     @ [Line_add E (last (instances lines)) (line_spans line)]\<rparr>) out rest)"
  by simp

lemma join_loop_length:
  "length (instances (fst (join_loop E ot mt lines out ls)))
     \<le> length (instances lines) + length ls"
proof (induction ls arbitrary: lines out)
  case Nil
  then show ?case by simp
next
  case (Cons line rest)
  have a: "length (instances (fst (join_loop E ot mt (Lines_append lines line) out rest)))
             \<le> length (instances lines) + length (line # rest)"
    using Cons.IH [of "Lines_append lines line" out] by (simp add: Lines_append_length)
  have b: "\<And>out'. length (instances (fst (join_loop E ot mt lines out' rest)))
             \<le> length (instances lines) + length (line # rest)"
    using Cons.IH [of lines] by (simp add: le_Suc_eq)
  have c: "instances lines \<noteq> [] \<Longrightarrow>
           length (instances (fst (join_loop E ot mt
              (lines\<lparr>instances := butlast (instances lines)
                     @ [Line_add E (last (instances lines)) (line_spans line)]\<rparr>) out rest)))
             \<le> length (instances lines) + length (line # rest)"
    using Cons.IH [of "lines\<lparr>instances := butlast (instances lines)
                     @ [Line_add E (last (instances lines)) (line_spans line)]\<rparr>" out]
    by simp
  show ?case
    using join_loop_Cons_cases [of E ot mt lines out line rest] a b c by metis
qed

lemma join_loop_runs:
  "runs_of (instances (fst (join_loop E ot mt lines out ls)))
     \<subseteq> runs_of (instances lines) \<union> runs_of ls"
proof (induction ls arbitrary: lines out)
  case Nil
  then show ?case by simp
next
  case (Cons line rest)
  have a: "runs_of (instances (fst (join_loop E ot mt (Lines_append lines line) out rest)))
             \<subseteq> runs_of (instances lines) \<union> runs_of (line # rest)"
    using Cons.IH [of "Lines_append lines line" out]
    by (auto simp: Lines_append_runs runs_of_Cons)
  have b: "\<And>out'. runs_of (instances (fst (join_loop E ot mt lines out' rest)))
             \<subseteq> runs_of (instances lines) \<union> runs_of (line # rest)"
    using Cons.IH [of lines] by (auto simp: runs_of_Cons)
  have c: "instances lines \<noteq> [] \<Longrightarrow>
           runs_of (instances (fst (join_loop E ot mt
              (lines\<lparr>instances := butlast (instances lines)
                     @ [Line_add E (last (instances lines)) (line_spans line)]\<rparr>) out rest)))
             \<subseteq> runs_of (instances lines) \<union> runs_of (line # rest)"
    using Cons.IH [of "lines\<lparr>instances := butlast (instances lines)
                     @ [Line_add E (last (instances lines)) (line_spans line)]\<rparr>" out]
    by (auto simp: add_last_runs runs_of_Cons)
  show ?case
    using join_loop_Cons_cases [of E ot mt lines out line rest] a b c by metis
qed

lemma Collection_reset_instances: "instances (Collection_reset E self ls) = ls"
  by (simp add: Collection_reset_def Let_def split: option.splits)

text \<open>
  Claim C7.  For every collection of K lines, after \<^verbatim>\<open>join\<close> the collection holds at
  most K lines, every run of the result is a run of some input line, and \<^verbatim>\<open>join\<close> on
  an empty collection changes nothing and prints nothing.  The base collection's
  \<^verbatim>\<open>sort_in_reading_order\<close> is assumed to reorder only.
\<close>

theorem join_monotone:
  assumes "mset (sort_in_reading_order E c) = mset (instances c)"
  shows "length (instances (fst (Lines_join E ot mt c))) \<le> length (instances c)
         \<and> runs_of (instances (fst (Lines_join E ot mt c))) \<subseteq> runs_of (instances c)
         \<and> Lines_join E ot mt (c\<lparr>instances := []\<rparr>) = (c\<lparr>instances := []\<rparr>, [])"
proof -
  let ?s = "Lines_sort E c"
  have ms: "mset (instances ?s) = mset (instances c)"
    using assms by (simp add: Lines_sort_def Let_def concat_sorted_rows rows_loop_concat)
  have len: "length (instances ?s) = length (instances c)"
    using ms by (metis size_mset)
  have st: "set (instances ?s) = set (instances c)"
    using ms by (metis set_mset_mset)
  have runs: "runs_of (instances ?s) = runs_of (instances c)"
    by (simp add: runs_of_def st)
  let ?j = "join_loop E ot mt \<lparr>instances = [], parent = None\<rparr> [] (instances ?s)"
  have res: "instances c \<noteq> [] \<Longrightarrow> instances (fst (Lines_join E ot mt c)) = instances (fst ?j)"
    by (simp add: Lines_join_def Let_def case_prod_beta Collection_reset_instances)
  have l1: "length (instances (fst ?j)) \<le> length (instances c)"
    using join_loop_length [of E ot mt "\<lparr>instances = [], parent = None\<rparr>" "[]" "instances ?s"] len
    by simp
  have r1: "runs_of (instances (fst ?j)) \<subseteq> runs_of (instances c)"
    using join_loop_runs [of E ot mt "\<lparr>instances = [], parent = None\<rparr>" "[]" "instances ?s"] runs
    by (simp add: runs_of_Nil)
  have A: "length (instances (fst (Lines_join E ot mt c))) \<le> length (instances c)"
  proof (cases "instances c = []")
    case True
    then show ?thesis by (simp add: Lines_join_def)
  next
    case False
    then show ?thesis using res l1 by simp
  qed
  have B: "runs_of (instances (fst (Lines_join E ot mt c))) \<subseteq> runs_of (instances c)"
  proof (cases "instances c = []")
    case True
    then show ?thesis by (simp add: Lines_join_def)
  next
    case False
    then show ?thesis using res r1 by simp
  qed
  have C: "Lines_join E ot mt (c\<lparr>instances := []\<rparr>) = (c\<lparr>instances := []\<rparr>, [])"
    by (simp add: Lines_join_def)
  from A B C show ?thesis by blast
qed

lemma sort_lines_three: "instances (Lines_sort E0 lines_three)
      = [mk_line 1 (mk_rect 0 0 40 10) [Text (run_of ''ab'')] 0,
         mk_line 2 (mk_rect 41 1 80 11) [Text (run_of ''cd'')] 0,
         mk_line 3 (mk_rect 0 20 40 30) [Text (run_of ''ef'')] 0]"
    by (simp add: Lines_sort_def E0_def lines_three_def mk_line_def mk_rect_def Let_def
        plain_same_row_def rect_index_def)

lemma join_lines_three: "instances (fst (Lines_join E0 1 2 lines_three))
      = [(mk_line 1 (mk_rect 0 0 40 10) [Text (run_of ''ab'')] 0)
           \<lparr>line_spans := [Text (run_of ''ab''), Text (run_of ''cd'')]\<rparr>,
         mk_line 3 (mk_rect 0 20 40 30) [Text (run_of ''ef'')] 0]"
proof -
  have ne: "instances lines_three \<noteq> []" by (simp add: lines_three_def)
  have "instances (fst (Lines_join E0 1 2 lines_three))
     = instances (fst (join_loop E0 1 2 \<lparr>instances = [], parent = None\<rparr> []
         (instances (Lines_sort E0 lines_three))))"
    using ne by (simp add: Lines_join_def Let_def case_prod_beta Collection_reset_instances)
  also have "\<dots> = [(mk_line 1 (mk_rect 0 0 40 10) [Text (run_of ''ab'')] 0)
           \<lparr>line_spans := [Text (run_of ''ab''), Text (run_of ''cd'')]\<rparr>,
         mk_line 3 (mk_rect 0 20 40 30) [Text (run_of ''ef'')] 0]"
    unfolding sort_lines_three
    by (simp add: E0_def Lines_append_def Line_add_def mk_line_def mk_rect_def plain_same_row_def
          plain_contains_def)
  finally show ?thesis .
qed

theorem join_monotone_witness:
  "length (instances (fst (Lines_join E0 1 2 lines_three))) \<le> length (instances lines_three)
   \<and> runs_of (instances (fst (Lines_join E0 1 2 lines_three)))
       \<subseteq> runs_of (instances lines_three)
   \<and> map line_id (instances (fst (Lines_join E0 1 2 lines_three))) = [1, 3]"
proof -
  have h: "mset (sort_in_reading_order E0 lines_three) = mset (instances lines_three)"
    by (simp add: E0_def)
  have ids: "map line_id (instances (fst (Lines_join E0 1 2 lines_three))) = [1, 3]"
    by (simp add: join_lines_three mk_line_def)
  from join_monotone [OF h, of 1 2] ids show ?thesis by simp
qed

subsection \<open>strip\<close>

text \<open>
  Claim C8.  On a collection with an owning block, \<^verbatim>\<open>strip\<close> returns true iff at
  least one contained line reported a modification, and the block receives the
  collection's aggregate bbox only in that case: otherwise the block is left as it was.
  On the empty collection it returns false and changes nothing.
\<close>

theorem strip_result:
  assumes "parent c = Some b"
  shows "snd (Lines_strip E c) = Inr (\<exists>line \<in> set (instances c). snd (line_strip E line))
    \<and> instances (fst (Lines_strip E c)) = map (\<lambda>line. fst (line_strip E line)) (instances c)
    \<and> parent (fst (Lines_strip E c))
        = (if \<exists>line \<in> set (instances c). snd (line_strip E line)
           then Some (update_bbox E b
                  (lines_bbox E (c\<lparr>instances := map (\<lambda>line. fst (line_strip E line)) (instances c)\<rparr>)))
           else Some b)
    \<and> Lines_strip E (c\<lparr>instances := []\<rparr>) = (c\<lparr>instances := []\<rparr>, Inr False)"
proof -
  have ex: "list_ex (\<lambda>b. b) (map (\<lambda>x. snd (line_strip E x)) (instances c))
              = (\<exists>line \<in> set (instances c). snd (line_strip E line))"
    by (auto simp: list_ex_iff)
  show ?thesis
    using assms by (simp add: Lines_strip_def Let_def comp_def ex)
qed

theorem strip_result_witness:
  "snd (Lines_strip E0 lines_blank_start) = Inr True
   \<and> parent (fst (Lines_strip E0 lines_blank_start)) = Some (mk_block (mk_rect 0 0 40 30))
   \<and> snd (Lines_strip E0 lines_51) = Inr False
   \<and> parent (fst (Lines_strip E0 lines_51)) = parent lines_51"
proof -
  have p1: "parent lines_blank_start = Some (mk_block (mk_rect 0 0 40 30))"
    by (simp add: lines_blank_start_def)
  have p2: "parent lines_51 = Some (mk_block (mk_rect 0 0 100 30))"
    by (simp add: lines_51_def)
  from strip_result [OF p1, of E0] strip_result [OF p2, of E0] show ?thesis
    by (simp add: E0_def lines_blank_start_def lines_51_def mk_line_def plain_line_strip_def
        run_of_def run_abc_def plain_lines_bbox_def plain_or_def mk_rect_def mk_block_def)
qed

subsection \<open>parse_line_break\<close>

text \<open>The no-break space is whitespace; a letter is not.\<close>

lemma is_blank_nbsp: "is_blank [0xA0]"
  by (simp add: is_blank_def py_isspace_def)

lemma is_blank_next_line: "is_blank [0x85]"
  by (simp add: is_blank_def py_isspace_def)

lemma not_blank_letter: "\<not> is_blank [0x20, 0x61]"
  by (simp add: is_blank_def py_isspace_def)

text \<open>The outcomes of the chain for one line.\<close>

lemma line_break_of_error:
  assumes "line_break_of E block idx delta_space width thr lastl line rest = Inl e"
  shows "line_id line \<noteq> line_id lastl
    \<and> ((e = IndexError \<and> rest = [])
       \<or> (e = ZeroDivisionError \<and> rest \<noteq> [] \<and> \<not> in_same_row E line (hd rest) \<and> width = 0))"
  using assms by (auto simp: line_break_of_def split: if_splits list.splits)

lemma line_break_of_total:
  assumes "line_id line = line_id lastl
      \<or> (rest \<noteq> [] \<and> (in_same_row E line (hd rest) \<or> width \<noteq> 0))"
  shows "\<exists>v. line_break_of E block idx delta_space width thr lastl line rest = Inr v"
  using assms by (auto simp: line_break_of_def split: list.splits)

lemma plb_loop_length:
  "length (fst (plb_loop E block idx delta_space width thr lastl ls)) = length ls"
  by (induction ls) (auto simp: case_prod_beta split: sum.splits)

text \<open>
  When the chain returns a value for every line, the loop ends normally and each line
  carries the value of its chain.
\<close>

lemma plb_loop_nth:
  assumes "\<forall>i < length ls. \<exists>v.
     line_break_of E block idx delta_space width thr lastl (ls ! i) (drop (Suc i) ls) = Inr v"
  shows "snd (plb_loop E block idx delta_space width thr lastl ls) = None
    \<and> (\<forall>i < length ls. \<exists>v.
          line_break_of E block idx delta_space width thr lastl (ls ! i) (drop (Suc i) ls) = Inr v
          \<and> fst (plb_loop E block idx delta_space width thr lastl ls) ! i
              = (ls ! i)\<lparr>line_break := v\<rparr>)"
  using assms
proof (induction ls)
  case Nil
  then show ?case by simp
next
  case (Cons line rest)
  obtain v0 where v0:
    "line_break_of E block idx delta_space width thr lastl line rest = Inr v0"
    using Cons.prems by fastforce
  have rest_ok: "\<forall>i < length rest. \<exists>v.
     line_break_of E block idx delta_space width thr lastl (rest ! i) (drop (Suc i) rest) = Inr v"
  proof (intro allI impI)
    fix i assume "i < length rest"
    then have "Suc i < length (line # rest)" by simp
    then show "\<exists>v. line_break_of E block idx delta_space width thr lastl (rest ! i)
                 (drop (Suc i) rest) = Inr v"
      using Cons.prems by fastforce
  qed
  let ?r = "plb_loop E block idx delta_space width thr lastl rest"
  have step: "plb_loop E block idx delta_space width thr lastl (line # rest)
               = (line\<lparr>line_break := v0\<rparr> # fst ?r, snd ?r)"
    by (simp add: v0 case_prod_beta)
  have ih: "snd ?r = None
    \<and> (\<forall>i < length rest. \<exists>v.
          line_break_of E block idx delta_space width thr lastl (rest ! i) (drop (Suc i) rest) = Inr v
          \<and> fst ?r ! i = (rest ! i)\<lparr>line_break := v\<rparr>)"
    using Cons.IH rest_ok by blast
  have "\<forall>i < length (line # rest). \<exists>v.
          line_break_of E block idx delta_space width thr lastl ((line # rest) ! i)
             (drop (Suc i) (line # rest)) = Inr v
          \<and> (line\<lparr>line_break := v0\<rparr> # fst ?r) ! i = ((line # rest) ! i)\<lparr>line_break := v\<rparr>"
  proof (intro allI impI)
    fix i assume "i < length (line # rest)"
    then show "\<exists>v. line_break_of E block idx delta_space width thr lastl ((line # rest) ! i)
             (drop (Suc i) (line # rest)) = Inr v
          \<and> (line\<lparr>line_break := v0\<rparr> # fst ?r) ! i = ((line # rest) ! i)\<lparr>line_break := v\<rparr>"
      using v0 ih by (cases i) auto
  qed
  then show ?case using ih step by simp
qed

text \<open>
  When the chain raises for some line, the loop raises: the exception is one a chain
  raised, and the last line of the list is as it was.
\<close>

lemma plb_loop_raises:
  assumes "i < length ls"
    and "line_break_of E block idx delta_space width thr lastl (ls ! i) (drop (Suc i) ls) = Inl e"
  shows "snd (plb_loop E block idx delta_space width thr lastl ls) \<noteq> None"
  using assms
proof (induction ls arbitrary: i)
  case Nil
  then show ?case by simp
next
  case (Cons line rest)
  show ?case
  proof (cases "line_break_of E block idx delta_space width thr lastl line rest")
    case (Inl e')
    then show ?thesis by simp
  next
    case (Inr v)
    then obtain j where j: "i = Suc j" using Cons.prems by (cases i) auto
    then have "snd (plb_loop E block idx delta_space width thr lastl rest) \<noteq> None"
      using Cons.IH [of j] Cons.prems by simp
    then show ?thesis using Inr by (simp add: case_prod_beta)
  qed
qed

lemma plb_loop_error:
  assumes "snd (plb_loop E block idx delta_space width thr lastl ls) = Some e"
  shows "(\<exists>i < length ls.
            line_break_of E block idx delta_space width thr lastl (ls ! i) (drop (Suc i) ls) = Inl e)
    \<and> last (fst (plb_loop E block idx delta_space width thr lastl ls)) = last ls"
  using assms
proof (induction ls)
  case Nil
  then show ?case by simp
next
  case (Cons line rest)
  show ?case
  proof (cases "line_break_of E block idx delta_space width thr lastl line rest")
    case (Inl e')
    then have "e' = e" using Cons.prems by simp
    then show ?thesis using Inl by force
  next
    case (Inr v)
    let ?r = "plb_loop E block idx delta_space width thr lastl rest"
    have sr: "snd ?r = Some e" using Cons.prems Inr by (simp add: case_prod_beta)
    then have ih: "(\<exists>i < length rest.
            line_break_of E block idx delta_space width thr lastl (rest ! i) (drop (Suc i) rest) = Inl e)
        \<and> last (fst ?r) = last rest"
      using Cons.IH by blast
    then obtain j where j: "j < length rest"
      "line_break_of E block idx delta_space width thr lastl (rest ! j) (drop (Suc j) rest) = Inl e"
      by blast
    have ne: "rest \<noteq> []" using j by auto
    then have ne': "fst ?r \<noteq> []" using plb_loop_length [of E block idx delta_space width thr lastl rest]
      by (metis length_0_conv)
    have "Suc j < length (line # rest)
      \<and> line_break_of E block idx delta_space width thr lastl ((line # rest) ! Suc j)
            (drop (Suc (Suc j)) (line # rest)) = Inl e"
      using j by simp
    then have ex: "\<exists>i < length (line # rest).
            line_break_of E block idx delta_space width thr lastl ((line # rest) ! i)
              (drop (Suc i) (line # rest)) = Inl e"
      by blast
    have "last (fst (plb_loop E block idx delta_space width thr lastl (line # rest))) = last (line # rest)"
      using Inr ih ne ne' by (simp add: case_prod_beta)
    then show ?thesis using ex by blast
  qed
qed

lemma nth_is_last:
  assumes "i < length ls" and "\<not> Suc i < length ls"
  shows "ls ! i = last ls"
proof -
  have "i = length ls - 1" using assms by simp
  moreover have "ls \<noteq> []" using assms by auto
  ultimately show ?thesis by (simp add: last_conv_nth)
qed

lemma not_last_has_next:
  assumes "i < length ls" and "line_id (ls ! i) \<noteq> line_id (last ls)"
  shows "Suc i < length ls \<and> drop (Suc i) ls = ls ! Suc i # drop (Suc (Suc i)) ls"
proof -
  have "Suc i < length ls" using nth_is_last [OF assms(1)] assms(2) by (metis (full_types))
  then show ?thesis by (simp add: Cons_nth_drop_Suc)
qed

text \<open>What the call is on a collection with an owning block and at least one line.\<close>

lemma parse_line_break_unfold:
  assumes "parent c = Some block" and "instances c \<noteq> []"
  shows "Lines_parse_line_break E c thr
    = (c\<lparr>instances := fst (plb_loop E block (compare_edge block) (block_delta_space E block)
                             (block_width E block) thr (last (instances c)) (instances c))\<rparr>,
       snd (plb_loop E block (compare_edge block) (block_delta_space E block)
                             (block_width E block) thr (last (instances c)) (instances c)))"
  using assms
  by (simp add: Lines_parse_line_break_def Let_def case_prod_beta list.case_eq_if
      compare_edge_def block_delta_space_def block_width_def block_idx0_def)

text \<open>
  Claim C4, as stated, at a block of width zero: the first line is not the last and not
  in the row of the next, so the ratio is computed and the division raises
  \<open>ZeroDivisionError\<close>; the call does not reach the last line, whose
  \<^verbatim>\<open>line_break\<close> stays 1.
\<close>

theorem parse_line_break_zero_width_counterexample:
  "snd (Lines_parse_line_break E0 lines_zero_width (1 / 2)) = Some ZeroDivisionError
   \<and> line_break (last (instances (fst (Lines_parse_line_break E0 lines_zero_width (1 / 2))))) = 1"
  by (simp add: Lines_parse_line_break_def lines_zero_width_def mk_block_def mk_line_def
      mk_rect_def rect_index_def Let_def line_break_of_def E0_def plain_same_row_def)

text \<open>
  Claim C4, amended.  For a collection with an owning block, with the ratio and the width
  as the code computes them in doubles:

  \<^item> when the width is not zero, or no line reaches the ratio test, the call returns and
    every line keeps everything but its \<^verbatim>\<open>line_break\<close>; the last line gets 0; a line
    that is not the last and shares a row with the next gets 0; a line that reaches the
    ratio test gets 1 when its free-space ratio strictly exceeds the threshold, 0 when it
    does not and the next line's text is not blank, and 1 when it does not and the next
    line's text is blank;

  \<^item> when the width is zero and some line reaches the ratio test, the call raises
    \<open>ZeroDivisionError\<close> and the last line is left as it was.
\<close>

theorem parse_line_break_strict:
  assumes "parent c = Some block"
  shows "(block_width E block \<noteq> 0
          \<or> (\<forall>i < length (instances c). \<not> reaches_ratio_test E (instances c) i)
      \<longrightarrow> snd (Lines_parse_line_break E c thr) = None
        \<and> length (instances (fst (Lines_parse_line_break E c thr))) = length (instances c)
        \<and> (\<forall>i < length (instances c).
              instances (fst (Lines_parse_line_break E c thr)) ! i
                = (instances c ! i)
                    \<lparr>line_break := line_break (instances (fst (Lines_parse_line_break E c thr)) ! i)\<rparr>
            \<and> (line_id (instances c ! i) = line_id (last (instances c))
                 \<longrightarrow> line_break (instances (fst (Lines_parse_line_break E c thr)) ! i) = 0)
            \<and> (line_id (instances c ! i) \<noteq> line_id (last (instances c))
                 \<and> in_same_row E (instances c ! i) (instances c ! Suc i)
                 \<longrightarrow> line_break (instances (fst (Lines_parse_line_break E c thr)) ! i) = 0)
            \<and> (reaches_ratio_test E (instances c) i
                 \<longrightarrow> (thr < free_space_ratio E block (instances c ! i)
                        \<longrightarrow> line_break (instances (fst (Lines_parse_line_break E c thr)) ! i) = 1)
                   \<and> (\<not> thr < free_space_ratio E block (instances c ! i)
                        \<and> \<not> is_blank (line_text E (instances c ! Suc i))
                        \<longrightarrow> line_break (instances (fst (Lines_parse_line_break E c thr)) ! i) = 0)
                   \<and> (\<not> thr < free_space_ratio E block (instances c ! i)
                        \<and> is_blank (line_text E (instances c ! Suc i))
                        \<longrightarrow> line_break (instances (fst (Lines_parse_line_break E c thr)) ! i) = 1))))
    \<and> (block_width E block = 0
          \<and> (\<exists>i < length (instances c). reaches_ratio_test E (instances c) i)
      \<longrightarrow> snd (Lines_parse_line_break E c thr) = Some ZeroDivisionError
        \<and> length (instances (fst (Lines_parse_line_break E c thr))) = length (instances c)
        \<and> last (instances (fst (Lines_parse_line_break E c thr))) = last (instances c))"
proof (cases "instances c = []")
  case True
  then show ?thesis using assms by (simp add: Lines_parse_line_break_def Let_def case_prod_beta)
next
  case False
  define ls where "ls = instances c"
  define idx where "idx = compare_edge block"
  define delta where "delta = block_delta_space E block"
  define width where "width = block_width E block"
  define lastl where "lastl = last ls"
  let ?r = "plb_loop E block idx delta width thr lastl ls"
  have res: "Lines_parse_line_break E c thr = (c\<lparr>instances := fst ?r\<rparr>, snd ?r)"
    using parse_line_break_unfold [OF assms False, of E thr]
    by (simp add: ls_def idx_def delta_def width_def lastl_def)
  have len: "length (fst ?r) = length ls" by (rule plb_loop_length)
  have ratio: "float_div E (float_add E
                 \<bar>float_sub E (rect_index (block_bbox block) idx) (rect_index (line_bbox l) idx)\<bar>
                 delta) width = free_space_ratio E block l" for l
    by (simp add: free_space_ratio_def idx_def delta_def width_def)
  have first: "snd ?r = None \<and> length (fst ?r) = length ls
      \<and> (\<forall>i < length ls.
            fst ?r ! i = (ls ! i)\<lparr>line_break := line_break (fst ?r ! i)\<rparr>
          \<and> (line_id (ls ! i) = line_id (last ls) \<longrightarrow> line_break (fst ?r ! i) = 0)
          \<and> (line_id (ls ! i) \<noteq> line_id (last ls) \<and> in_same_row E (ls ! i) (ls ! Suc i)
               \<longrightarrow> line_break (fst ?r ! i) = 0)
          \<and> (reaches_ratio_test E ls i
               \<longrightarrow> (thr < free_space_ratio E block (ls ! i) \<longrightarrow> line_break (fst ?r ! i) = 1)
                 \<and> (\<not> thr < free_space_ratio E block (ls ! i)
                      \<and> \<not> is_blank (line_text E (ls ! Suc i))
                      \<longrightarrow> line_break (fst ?r ! i) = 0)
                 \<and> (\<not> thr < free_space_ratio E block (ls ! i)
                      \<and> is_blank (line_text E (ls ! Suc i))
                      \<longrightarrow> line_break (fst ?r ! i) = 1)))"
    if ok: "width \<noteq> 0 \<or> (\<forall>i < length ls. \<not> reaches_ratio_test E ls i)"
  proof -
    have total: "\<forall>i < length ls. \<exists>v.
       line_break_of E block idx delta width thr lastl (ls ! i) (drop (Suc i) ls) = Inr v"
    proof (intro allI impI)
      fix i assume i: "i < length ls"
      show "\<exists>v. line_break_of E block idx delta width thr lastl (ls ! i) (drop (Suc i) ls) = Inr v"
      proof (cases "line_id (ls ! i) = line_id lastl")
        case True
        then show ?thesis by (intro line_break_of_total) simp
      next
        case False
        then have nx: "drop (Suc i) ls = ls ! Suc i # drop (Suc (Suc i)) ls"
          using not_last_has_next [OF i] by (simp add: lastl_def)
        have "in_same_row E (ls ! i) (ls ! Suc i) \<or> width \<noteq> 0"
          using ok i False by (auto simp: reaches_ratio_test_def lastl_def)
        then show ?thesis by (intro line_break_of_total) (simp add: nx)
      qed
    qed
    have loop: "snd ?r = None
      \<and> (\<forall>i < length ls. \<exists>v.
          line_break_of E block idx delta width thr lastl (ls ! i) (drop (Suc i) ls) = Inr v
          \<and> fst ?r ! i = (ls ! i)\<lparr>line_break := v\<rparr>)"
      by (rule plb_loop_nth [OF total])
    have per_line: "fst ?r ! i = (ls ! i)\<lparr>line_break := line_break (fst ?r ! i)\<rparr>
          \<and> (line_id (ls ! i) = line_id (last ls) \<longrightarrow> line_break (fst ?r ! i) = 0)
          \<and> (line_id (ls ! i) \<noteq> line_id (last ls) \<and> in_same_row E (ls ! i) (ls ! Suc i)
               \<longrightarrow> line_break (fst ?r ! i) = 0)
          \<and> (reaches_ratio_test E ls i
               \<longrightarrow> (thr < free_space_ratio E block (ls ! i) \<longrightarrow> line_break (fst ?r ! i) = 1)
                 \<and> (\<not> thr < free_space_ratio E block (ls ! i)
                      \<and> \<not> is_blank (line_text E (ls ! Suc i))
                      \<longrightarrow> line_break (fst ?r ! i) = 0)
                 \<and> (\<not> thr < free_space_ratio E block (ls ! i)
                      \<and> is_blank (line_text E (ls ! Suc i))
                      \<longrightarrow> line_break (fst ?r ! i) = 1))"
      if i: "i < length ls" for i
    proof -
      obtain v where v: "line_break_of E block idx delta width thr lastl (ls ! i) (drop (Suc i) ls) = Inr v"
        and r: "fst ?r ! i = (ls ! i)\<lparr>line_break := v\<rparr>"
        using loop i by blast
      have lb: "line_break (fst ?r ! i) = v" by (simp add: r)
      show ?thesis
      proof (cases "line_id (ls ! i) = line_id (last ls)")
        case True
        then have "v = 0" using v by (simp add: line_break_of_def lastl_def)
        then show ?thesis using True r lb by (simp add: reaches_ratio_test_def)
      next
        case False
        then have d: "drop (Suc i) ls = ls ! Suc i # drop (Suc (Suc i)) ls"
          using not_last_has_next [OF i] by simp
        show ?thesis
          using False v r lb
          by (auto simp: line_break_of_def lastl_def d ratio reaches_ratio_test_def
              split: if_splits)
      qed
    qed
    show ?thesis using loop len per_line by blast
  qed
  have second: "snd ?r = Some ZeroDivisionError \<and> length (fst ?r) = length ls
      \<and> last (fst ?r) = last ls"
    if w0: "width = 0" and ex: "\<exists>i < length ls. reaches_ratio_test E ls i"
  proof -
    obtain i where i: "i < length ls" and reach: "reaches_ratio_test E ls i"
      using ex by blast
    have nl: "line_id (ls ! i) \<noteq> line_id (last ls)"
      and nr: "\<not> in_same_row E (ls ! i) (ls ! Suc i)"
      using reach by (simp_all add: reaches_ratio_test_def)
    have d: "drop (Suc i) ls = ls ! Suc i # drop (Suc (Suc i)) ls"
      using not_last_has_next [OF i nl] by simp
    have "line_break_of E block idx delta width thr lastl (ls ! i) (drop (Suc i) ls)
            = Inl ZeroDivisionError"
      using nl nr w0 by (simp add: line_break_of_def lastl_def d)
    then have "snd ?r \<noteq> None" using plb_loop_raises [OF i] by blast
    then obtain e where e: "snd ?r = Some e" by auto
    from plb_loop_error [OF e] obtain j where j: "j < length ls"
      and je: "line_break_of E block idx delta width thr lastl (ls ! j) (drop (Suc j) ls) = Inl e"
      and la: "last (fst ?r) = last ls"
      by blast
    from line_break_of_error [OF je] have jn: "line_id (ls ! j) \<noteq> line_id lastl"
      and kind: "(e = IndexError \<and> drop (Suc j) ls = []) \<or> e = ZeroDivisionError"
      by blast+
    have "drop (Suc j) ls \<noteq> []"
      using not_last_has_next [OF j] jn by (simp add: lastl_def)
    then have "e = ZeroDivisionError" using kind by blast
    then show ?thesis using e la len by simp
  qed
  show ?thesis
    using first second by (simp add: res ls_def [symmetric] width_def [symmetric])
qed

text \<open>
  The claim's two instances, on a block of width 100 with threshold 0.5: a first line at
  ratio 0.51 gets 1; at ratio 0.49 it gets 0 when the next line reads \<^verbatim>\<open>cd\<close>, and 1
  when the next line is a no-break space; the last line gets 0.  The same on a block of
  width 64, where the ratios \<open>33 / 64\<close> and \<open>31 / 64\<close> are computed without rounding in
  doubles too.  A block of width zero with a single line returns normally; one with two
  lines in different rows raises.
\<close>

theorem parse_line_break_strict_witness:
  "map line_break (instances (fst (Lines_parse_line_break E0 lines_51 (1 / 2)))) = [1, 0]
   \<and> map line_break (instances (fst (Lines_parse_line_break E0 lines_49 (1 / 2)))) = [0, 0]
   \<and> map line_break (instances (fst (Lines_parse_line_break E0 lines_49_nbsp (1 / 2)))) = [1, 0]
   \<and> map line_break (instances (fst (Lines_parse_line_break E0 lines_33_64 (1 / 2)))) = [1, 0]
   \<and> map line_break (instances (fst (Lines_parse_line_break E0 lines_31_64 (1 / 2)))) = [0, 0]
   \<and> Lines_parse_line_break E0 lines_zero_width_single (1 / 2)
        = (lines_zero_width_single
             \<lparr>instances := [mk_line 1 (mk_rect 5 0 5 10) [Text (run_of ''ab'')] 0]\<rparr>, None)
   \<and> snd (Lines_parse_line_break E0 lines_zero_width (1 / 2)) = Some ZeroDivisionError"
proof -
  let ?b = "mk_block (mk_rect 0 0 100 30)"
  have p51: "parent lines_51 = Some ?b" by (simp add: lines_51_def)
  have p49: "parent lines_49 = Some ?b" by (simp add: lines_49_def)
  have p49n: "parent lines_49_nbsp = Some ?b" by (simp add: lines_49_nbsp_def)
  let ?b64 = "mk_block (mk_rect 0 0 64 30)"
  have p33: "parent lines_33_64 = Some ?b64" by (simp add: lines_33_64_def)
  have p31: "parent lines_31_64 = Some ?b64" by (simp add: lines_31_64_def)
  have w64: "block_width E0 ?b64 \<noteq> 0"
    by (simp add: block_width_def block_idx0_def mk_block_def mk_rect_def rect_index_def E0_def)
  have r33: "free_space_ratio E0 ?b64 (instances lines_33_64 ! 0) = 33 / 64"
    by (simp add: free_space_ratio_def compare_edge_def block_delta_space_def block_width_def
        block_idx0_def mk_block_def mk_rect_def rect_index_def lines_33_64_def mk_line_def E0_def)
  have r31: "free_space_ratio E0 ?b64 (instances lines_31_64 ! 0) = 31 / 64"
    by (simp add: free_space_ratio_def compare_edge_def block_delta_space_def block_width_def
        block_idx0_def mk_block_def mk_rect_def rect_index_def lines_31_64_def mk_line_def E0_def)
  have f33: "length (instances lines_33_64) = 2"
    "line_id (instances lines_33_64 ! 1) = line_id (last (instances lines_33_64))"
    "reaches_ratio_test E0 (instances lines_33_64) 0"
    by (simp_all add: lines_33_64_def mk_line_def E0_def plain_same_row_def mk_rect_def
        reaches_ratio_test_def)
  have f31: "length (instances lines_31_64) = 2"
    "line_id (instances lines_31_64 ! 1) = line_id (last (instances lines_31_64))"
    "reaches_ratio_test E0 (instances lines_31_64) 0"
    "\<not> is_blank (line_text E0 (instances lines_31_64 ! Suc 0))"
    by (simp_all add: lines_31_64_def mk_line_def E0_def plain_same_row_def mk_rect_def
        reaches_ratio_test_def plain_line_text_def plain_span_text_def run_of_def is_blank_def
        py_isspace_def)
  note t33 = parse_line_break_strict [OF p33, of E0 "1 / 2", THEN conjunct1, rule_format, OF disjI1, OF w64]
  note t31 = parse_line_break_strict [OF p31, of E0 "1 / 2", THEN conjunct1, rule_format, OF disjI1, OF w64]
  have l33: "length (instances (fst (Lines_parse_line_break E0 lines_33_64 (1 / 2)))) = 2"
    using t33 f33 by simp
  have l31: "length (instances (fst (Lines_parse_line_break E0 lines_31_64 (1 / 2)))) = 2"
    using t31 f31 by simp
  have g: "line_break (instances (fst (Lines_parse_line_break E0 lines_33_64 (1 / 2))) ! 0) = 1"
    "line_break (instances (fst (Lines_parse_line_break E0 lines_33_64 (1 / 2))) ! 1) = 0"
    using t33 f33 r33 by simp_all
  have h: "line_break (instances (fst (Lines_parse_line_break E0 lines_31_64 (1 / 2))) ! 0) = 0"
    "line_break (instances (fst (Lines_parse_line_break E0 lines_31_64 (1 / 2))) ! 1) = 0"
    using t31 f31 r31 by simp_all
  have pz1: "parent lines_zero_width_single = Some (mk_block (mk_rect 5 0 5 10))"
    by (simp add: lines_zero_width_single_def)
  have pz2: "parent lines_zero_width = Some (mk_block (mk_rect 5 0 5 30))"
    by (simp add: lines_zero_width_def)
  have w: "block_width E0 ?b \<noteq> 0"
    by (simp add: block_width_def block_idx0_def mk_block_def mk_rect_def rect_index_def E0_def)
  have wz1: "block_width E0 (mk_block (mk_rect 5 0 5 10)) = 0"
    by (simp add: block_width_def block_idx0_def mk_block_def mk_rect_def rect_index_def E0_def)
  have wz2: "block_width E0 (mk_block (mk_rect 5 0 5 30)) = 0"
    by (simp add: block_width_def block_idx0_def mk_block_def mk_rect_def rect_index_def E0_def)
  have r51: "free_space_ratio E0 ?b (instances lines_51 ! 0) = 51 / 100"
    by (simp add: free_space_ratio_def compare_edge_def block_delta_space_def block_width_def
        block_idx0_def mk_block_def mk_rect_def rect_index_def lines_51_def mk_line_def E0_def)
  have r49: "free_space_ratio E0 ?b (instances lines_49 ! 0) = 49 / 100"
    by (simp add: free_space_ratio_def compare_edge_def block_delta_space_def block_width_def
        block_idx0_def mk_block_def mk_rect_def rect_index_def lines_49_def mk_line_def E0_def)
  have r49n: "free_space_ratio E0 ?b (instances lines_49_nbsp ! 0) = 49 / 100"
    by (simp add: free_space_ratio_def compare_edge_def block_delta_space_def block_width_def
        block_idx0_def mk_block_def mk_rect_def rect_index_def lines_49_nbsp_def mk_line_def E0_def)
  have f51: "length (instances lines_51) = 2"
    "line_id (instances lines_51 ! 1) = line_id (last (instances lines_51))"
    "reaches_ratio_test E0 (instances lines_51) 0"
    by (simp_all add: lines_51_def mk_line_def E0_def plain_same_row_def mk_rect_def
        reaches_ratio_test_def)
  have f49: "length (instances lines_49) = 2"
    "line_id (instances lines_49 ! 1) = line_id (last (instances lines_49))"
    "reaches_ratio_test E0 (instances lines_49) 0"
    "\<not> is_blank (line_text E0 (instances lines_49 ! Suc 0))"
    by (simp_all add: lines_49_def mk_line_def E0_def plain_same_row_def mk_rect_def
        reaches_ratio_test_def plain_line_text_def plain_span_text_def run_of_def is_blank_def
        py_isspace_def)
  have f49n: "length (instances lines_49_nbsp) = 2"
    "line_id (instances lines_49_nbsp ! 1) = line_id (last (instances lines_49_nbsp))"
    "reaches_ratio_test E0 (instances lines_49_nbsp) 0"
    "is_blank (line_text E0 (instances lines_49_nbsp ! Suc 0))"
    by (simp_all add: lines_49_nbsp_def mk_line_def E0_def plain_same_row_def mk_rect_def
        reaches_ratio_test_def plain_line_text_def plain_span_text_def run_of_def is_blank_def
        py_isspace_def)
  note t51 = parse_line_break_strict [OF p51, of E0 "1 / 2", THEN conjunct1, rule_format, OF disjI1, OF w]
  note t49 = parse_line_break_strict [OF p49, of E0 "1 / 2", THEN conjunct1, rule_format, OF disjI1, OF w]
  note t49n = parse_line_break_strict [OF p49n, of E0 "1 / 2", THEN conjunct1, rule_format, OF disjI1, OF w]
  have l51: "length (instances (fst (Lines_parse_line_break E0 lines_51 (1 / 2)))) = 2"
    using t51 f51 by simp
  have l49: "length (instances (fst (Lines_parse_line_break E0 lines_49 (1 / 2)))) = 2"
    using t49 f49 by simp
  have l49n: "length (instances (fst (Lines_parse_line_break E0 lines_49_nbsp (1 / 2)))) = 2"
    using t49n f49n by simp
  have a: "line_break (instances (fst (Lines_parse_line_break E0 lines_51 (1 / 2))) ! 0) = 1"
    "line_break (instances (fst (Lines_parse_line_break E0 lines_51 (1 / 2))) ! 1) = 0"
    using t51 f51 r51 by simp_all
  have b: "line_break (instances (fst (Lines_parse_line_break E0 lines_49 (1 / 2))) ! 0) = 0"
    "line_break (instances (fst (Lines_parse_line_break E0 lines_49 (1 / 2))) ! 1) = 0"
    using t49 f49 r49 by simp_all
  have c: "line_break (instances (fst (Lines_parse_line_break E0 lines_49_nbsp (1 / 2))) ! 0) = 1"
    "line_break (instances (fst (Lines_parse_line_break E0 lines_49_nbsp (1 / 2))) ! 1) = 0"
    using t49n f49n r49n by simp_all
  have two: "\<And>xs :: Line list. length xs = 2 \<Longrightarrow> map line_break xs = [line_break (xs ! 0), line_break (xs ! 1)]"
  proof -
    fix xs :: "Line list" assume "length xs = 2"
    then obtain x y where "xs = [x, y]"
      by (metis (no_types, opaque_lifting) One_nat_def Suc_1 length_0_conv length_Suc_conv)
    then show "map line_break xs = [line_break (xs ! 0), line_break (xs ! 1)]" by simp
  qed
  have A: "map line_break (instances (fst (Lines_parse_line_break E0 lines_51 (1 / 2)))) = [1, 0]"
    using two [OF l51] a by simp
  have B: "map line_break (instances (fst (Lines_parse_line_break E0 lines_49 (1 / 2)))) = [0, 0]"
    using two [OF l49] b by simp
  have C: "map line_break (instances (fst (Lines_parse_line_break E0 lines_49_nbsp (1 / 2)))) = [1, 0]"
    using two [OF l49n] c by simp
  have G: "map line_break (instances (fst (Lines_parse_line_break E0 lines_33_64 (1 / 2)))) = [1, 0]"
    using two [OF l33] g by simp
  have H: "map line_break (instances (fst (Lines_parse_line_break E0 lines_31_64 (1 / 2)))) = [0, 0]"
    using two [OF l31] h by simp
  have D: "Lines_parse_line_break E0 lines_zero_width_single (1 / 2)
        = (lines_zero_width_single
             \<lparr>instances := [mk_line 1 (mk_rect 5 0 5 10) [Text (run_of ''ab'')] 0]\<rparr>, None)"
    by (simp add: Lines_parse_line_break_def lines_zero_width_single_def mk_block_def mk_line_def
        mk_rect_def rect_index_def Let_def line_break_of_def E0_def)
  have rz: "\<exists>i < length (instances lines_zero_width). reaches_ratio_test E0 (instances lines_zero_width) i"
  proof -
    have "0 < length (instances lines_zero_width) \<and> reaches_ratio_test E0 (instances lines_zero_width) 0"
      by (simp add: lines_zero_width_def mk_line_def E0_def plain_same_row_def mk_rect_def
          reaches_ratio_test_def)
    then show ?thesis by blast
  qed
  have F: "snd (Lines_parse_line_break E0 lines_zero_width (1 / 2)) = Some ZeroDivisionError"
    using parse_line_break_strict [OF pz2, of E0 "1 / 2", THEN conjunct2] wz2 rz by blast
  from A B C G H D F show ?thesis by blast
qed

subsection \<open>parse_text_format\<close>

text \<open>
  A line of inline images only passes through unchanged; a line with a text-run makes the
  inner loop raise \<open>TypeError\<close>: the call passes two arguments to \<^verbatim>\<open>split\<close>, which
  takes one.
\<close>

lemma split_spans_loop_images:
  "list_all (\<lambda>s. case s of Image im \<Rightarrow> True | Text sp \<Rightarrow> False) spans \<Longrightarrow>
   split_spans_loop E rect line acc flag spans = Inr (acc @ spans, flag)"
  by (induction spans arbitrary: acc) (auto split: span.splits)

lemma split_spans_loop_text:
  "\<not> list_all (\<lambda>s. case s of Image im \<Rightarrow> True | Text sp \<Rightarrow> False) spans \<Longrightarrow>
   split_spans_loop E rect line acc flag spans = Inl TypeError"
  by (induction spans arbitrary: acc) (auto simp: call_split_def split: span.splits)

text \<open>
  Claim C2.  The claim: a line whose expanded bbox intersects the shape is processed
  without raising, each text-run replaced by the result of its split.  The code at such
  an input: the collection with the single line \<^verbatim>\<open>abc\<close> and a shape over \<^verbatim>\<open>b\<close>.
  The call \<^verbatim>\<open>span.split(rect, line.is_horizontal_text)\<close> raises \<open>TypeError\<close>, and
  the line keeps its run sequence.
\<close>

theorem parse_text_format_raises:
  "Lines_parse_text_format E0 lines_abc shape_b = (lines_abc, Inl TypeError)"
  by (simp add: Lines_parse_text_format_def lines_abc_def shape_b_def mk_line_def mk_rect_def
      E0_def plain_expand_def plain_and_def plain_bool_def Rect0_def Let_def call_split_def)

end
